theory Spec2Isabelle
  imports Complex_Main "HOL-Library.Char_ord" "HOL-Library.List_Lexorder" "HOL-Library.Sublist"
begin

section \<open>Python values\<close>

text \<open>
  Everything the server handles is JSON: the provider's response, the stored documents and
  the flights inside them. A \<open>dict\<close> is an association list in insertion order, read with
  \<open>map_of\<close>; a \<open>str\<close> is a \<open>string\<close>, ordered lexicographically by character code as
  Python orders it.

  A Python \<open>float\<close> is a rational, one of the two infinities, or NaN. The values other
  than NaN are linearly ordered (\<open>xrat\<close>); NaN compares false with everything, itself
  included, under \<open><\<close>, \<open>\<le>\<close> and \<open>>\<close>. Arithmetic on floats does not occur in the
  source; the one rounding that does, \<open>float\<close> of an integer, is \<open>float_of_int\<close> below.
\<close>

datatype xrat = XNegInf | XFin rat | XPosInf

instantiation xrat :: linorder
begin

fun less_eq_xrat :: "xrat \<Rightarrow> xrat \<Rightarrow> bool" where
  "less_eq_xrat XNegInf _ = True"
| "less_eq_xrat (XFin a) XNegInf = False"
| "less_eq_xrat (XFin a) (XFin b) = (a \<le> b)"
| "less_eq_xrat (XFin a) XPosInf = True"
| "less_eq_xrat XPosInf XPosInf = True"
| "less_eq_xrat XPosInf _ = False"

definition less_xrat :: "xrat \<Rightarrow> xrat \<Rightarrow> bool" where
  "less_xrat x y = (x \<le> y \<and> \<not> y \<le> x)"

instance
proof
  fix x y z :: xrat
  show "(x < y) = (x \<le> y \<and> \<not> y \<le> x)"
    by (simp add: less_xrat_def)
  show "x \<le> x"
    by (cases x) simp_all
  show "x \<le> y \<Longrightarrow> y \<le> z \<Longrightarrow> x \<le> z"
    by (cases x; cases y; cases z) simp_all
  show "x \<le> y \<Longrightarrow> y \<le> x \<Longrightarrow> x = y"
    by (cases x; cases y) simp_all
  show "x \<le> y \<or> y \<le> x"
    by (cases x; cases y) auto
qed

end

datatype pyfloat = Ordered xrat | FNaN

abbreviation FNum :: "rat \<Rightarrow> pyfloat" where
  "FNum r \<equiv> Ordered (XFin r)"

abbreviation FPosInf :: pyfloat where
  "FPosInf \<equiv> Ordered XPosInf"

abbreviation FNegInf :: pyfloat where
  "FNegInf \<equiv> Ordered XNegInf"

text \<open>\<open>a < b\<close>, \<open>a <= b\<close> and \<open>a > b\<close> on floats.\<close>

fun float_lt :: "pyfloat \<Rightarrow> pyfloat \<Rightarrow> bool" where
  "float_lt (Ordered x) (Ordered y) = (x < y)"
| "float_lt _ _ = False"

fun float_le :: "pyfloat \<Rightarrow> pyfloat \<Rightarrow> bool" where
  "float_le (Ordered x) (Ordered y) = (x \<le> y)"
| "float_le _ _ = False"

definition float_gt :: "pyfloat \<Rightarrow> pyfloat \<Rightarrow> bool" where
  "float_gt a b = float_lt b a"

text \<open>
  \<open>float(i)\<close> for an integer: exact below \<open>2^53\<close>, otherwise rounded to 53 significant
  bits, a tie going to the even neighbour; \<open>None\<close> is the \<open>OverflowError\<close> for an integer
  that rounds to \<open>2^1024\<close> or more.
\<close>

function bit_length :: "int \<Rightarrow> nat" where
  "bit_length n = (if n \<le> 0 then 0 else Suc (bit_length (n div 2)))"
  by pat_completeness auto
termination
  by (relation "measure nat") auto

declare bit_length.simps [simp del]

definition float_of_int :: "int \<Rightarrow> pyfloat option" where
  "float_of_int i =
     (let a = \<bar>i\<bar> in
      if a < 2 ^ 53 then Some (FNum (of_int i))
      else
        let sh = bit_length a - 53;
            q = a div 2 ^ sh;
            r = a mod 2 ^ sh;
            half = 2 ^ (sh - 1);
            q' = (if half < r \<or> (r = half \<and> odd q) then q + 1 else q);
            v = q' * 2 ^ sh
        in if 2 ^ 1024 \<le> v then None else Some (FNum (of_int (sgn i * v))))"

datatype json =
    JNull
  | JBool bool
  | JInt int
  | JFloat pyfloat
  | JStr string
  | JArr "json list"
  | JObj "(string \<times> json) list"

datatype py_error =
    KeyError
  | TypeError
  | AttributeError
  | ValueError
  | OverflowError
  | IndexError
  | JSONDecodeError
  | FileNotFoundError
  | PermissionError
  | ProviderError

text \<open>
  The value a flight is sorted by: a number, a string, or a value of another type.
\<close>

datatype sort_value = KNum pyfloat | KStr string | KOther json

text \<open>
  Library behaviour that the source relies on and does not fix is a parameter of the model:
  the parsers \<open>float(s)\<close> and \<open>int(s)\<close> on a string and \<open>datetime.fromisoformat\<close>
  (\<open>None\<close> is the \<open>ValueError\<close> they raise), and what \<open>list.sort\<close> does with keys that
  \<open><\<close> does not order linearly (a NaN among numbers, mixed types, lists). For such keys
  \<open>sort_unordered\<close> gives, from the keys and the \<open>reverse\<close> flag, either the exception
  raised or, for each item, the position the sort leaves it at. A \<open>datetime\<close> is a count
  of microseconds, naive or with a time zone; Python refuses to subtract one kind from the
  other.
\<close>

datatype datetime = Naive int | Aware int

record pylib =
  float_of_str :: "string \<Rightarrow> pyfloat option"
  int_of_str :: "string \<Rightarrow> int option"
  fromisoformat :: "string \<Rightarrow> datetime option"
  sort_unordered :: "sort_value list \<Rightarrow> bool \<Rightarrow> py_error + nat list"

definition ebind :: "py_error + 'a \<Rightarrow> ('a \<Rightarrow> py_error + 'b) \<Rightarrow> py_error + 'b" where
  "ebind m f = (case m of Inl e \<Rightarrow> Inl e | Inr x \<Rightarrow> f x)"

fun map_err :: "('a \<Rightarrow> py_error + 'b) \<Rightarrow> 'a list \<Rightarrow> py_error + 'b list" where
  "map_err f [] = Inr []"
| "map_err f (x # xs) = ebind (f x) (\<lambda>y. ebind (map_err f xs) (\<lambda>ys. Inr (y # ys)))"

text \<open>\<open>d.get(k, default)\<close> on a dict.\<close>

definition dict_get :: "(string \<times> json) list \<Rightarrow> string \<Rightarrow> json \<Rightarrow> json" where
  "dict_get d k dflt = (case map_of d k of None \<Rightarrow> dflt | Some v \<Rightarrow> v)"

text \<open>\<open>x.get(k, default)\<close> on any value: only a dict has the method.\<close>

fun py_get :: "json \<Rightarrow> string \<Rightarrow> json \<Rightarrow> py_error + json" where
  "py_get (JObj d) k dflt = Inr (dict_get d k dflt)"
| "py_get _ k dflt = Inl AttributeError"

text \<open>\<open>x[k]\<close> with a string key: a dict raises \<open>KeyError\<close> on a missing key, every other
  value raises \<open>TypeError\<close> (a list or string wants an integer, the rest cannot be indexed).\<close>

fun py_index :: "json \<Rightarrow> string \<Rightarrow> py_error + json" where
  "py_index (JObj d) k = (case map_of d k of None \<Rightarrow> Inl KeyError | Some v \<Rightarrow> Inr v)"
| "py_index _ k = Inl TypeError"

text \<open>Truth value of a JSON value, as \<open>if not x\<close> tests it.\<close>

fun truthy :: "json \<Rightarrow> bool" where
  "truthy JNull = False"
| "truthy (JBool b) = b"
| "truthy (JInt i) = (i \<noteq> 0)"
| "truthy (JFloat x) = (x \<noteq> FNum 0)"
| "truthy (JStr s) = (s \<noteq> [])"
| "truthy (JArr xs) = (xs \<noteq> [])"
| "truthy (JObj d) = (d \<noteq> [])"

text \<open>What a \<open>for\<close> loop iterates over: the items of a list, the keys of a dict, the
  characters of a string; anything else is not iterable.\<close>

fun py_iter :: "json \<Rightarrow> py_error + json list" where
  "py_iter (JArr xs) = Inr xs"
| "py_iter (JObj d) = Inr (map (\<lambda>kv. JStr (fst kv)) d)"
| "py_iter (JStr s) = Inr (map (\<lambda>c. JStr [c]) s)"
| "py_iter _ = Inl TypeError"

fun py_len :: "json \<Rightarrow> py_error + nat" where
  "py_len (JArr xs) = Inr (length xs)"
| "py_len (JObj d) = Inr (length d)"
| "py_len (JStr s) = Inr (length s)"
| "py_len _ = Inl TypeError"

text \<open>\<open>a + b\<close> as the transform uses it: two lists or two strings concatenate, two numbers
  add to a number (which the loop that follows cannot iterate, so the model raises the same
  \<open>TypeError\<close> at once), every other pair has no \<open>+\<close>.\<close>

fun py_add :: "json \<Rightarrow> json \<Rightarrow> py_error + json" where
  "py_add (JArr xs) (JArr ys) = Inr (JArr (xs @ ys))"
| "py_add (JStr s) (JStr t) = Inr (JStr (s @ t))"
| "py_add _ _ = Inl TypeError"

text \<open>\<open>float(x)\<close> and \<open>int(x)\<close>: \<open>int\<close> truncates towards zero and cannot convert an
  infinity or NaN.\<close>

fun py_float :: "pylib \<Rightarrow> json \<Rightarrow> py_error + pyfloat" where
  "py_float lib (JInt i) = (case float_of_int i of None \<Rightarrow> Inl OverflowError | Some x \<Rightarrow> Inr x)"
| "py_float lib (JFloat x) = Inr x"
| "py_float lib (JBool b) = Inr (FNum (if b then 1 else 0))"
| "py_float lib (JStr s) = (case float_of_str lib s of None \<Rightarrow> Inl ValueError | Some x \<Rightarrow> Inr x)"
| "py_float lib _ = Inl TypeError"

fun py_int :: "pylib \<Rightarrow> json \<Rightarrow> py_error + int" where
  "py_int lib (JInt i) = Inr i"
| "py_int lib (JFloat (Ordered (XFin r))) = Inr (if 0 \<le> r then \<lfloor>r\<rfloor> else \<lceil>r\<rceil>)"
| "py_int lib (JFloat (Ordered _)) = Inl OverflowError"
| "py_int lib (JFloat FNaN) = Inl ValueError"
| "py_int lib (JBool b) = Inr (if b then 1 else 0)"
| "py_int lib (JStr s) = (case int_of_str lib s of None \<Rightarrow> Inl ValueError | Some i \<Rightarrow> Inr i)"
| "py_int lib _ = Inl TypeError"

section \<open>Normalisation of the provider's response\<close>

text \<open>The three fields copied from \<open>segment["departure_airport"]\<close> or
  \<open>segment["arrival_airport"]\<close>, each read with \<open>[...]\<close> and no default.\<close>

definition airport_view :: "json \<Rightarrow> py_error + json" where
  "airport_view a =
     ebind (py_index a ''name'') (\<lambda>n.
     ebind (py_index a ''id'') (\<lambda>i.
     ebind (py_index a ''time'') (\<lambda>t.
       Inr (JObj [(''name'', n), (''id'', i), (''time'', t)]))))"

text \<open>The body of the inner loop of \<open>_transform_flight_data\<close>: one provider segment to one
  stored segment.\<close>

fun transform_segment :: "json \<Rightarrow> py_error + json" where
  "transform_segment (JObj seg) =
     ebind (ebind (py_index (JObj seg) ''departure_airport'') airport_view) (\<lambda>dep.
     ebind (ebind (py_index (JObj seg) ''arrival_airport'') airport_view) (\<lambda>arr.
       Inr (JObj
         [(''airline'', dict_get seg ''airline'' (JStr '''')),
          (''flight_number'', dict_get seg ''flight_number'' (JStr '''')),
          (''airplane'', dict_get seg ''airplane'' (JStr '''')),
          (''travel_class'', dict_get seg ''travel_class'' (JStr '''')),
          (''departure_airport'', dep),
          (''arrival_airport'', arr),
          (''duration'', dict_get seg ''duration'' (JInt 0)),
          (''airline_logo'', dict_get seg ''airline_logo'' (JStr '''')),
          (''legroom'', dict_get seg ''legroom'' (JStr '''')),
          (''overnight'', dict_get seg ''overnight'' (JBool False)),
          (''plane_and_crew_by'', dict_get seg ''plane_and_crew_by'' (JStr '''')),
          (''often_delayed_by_over_30_min'',
             dict_get seg ''often_delayed_by_over_30_min'' (JBool False))])))"
| "transform_segment _ = Inl AttributeError"

text \<open>\<open>flight_segments[0]\<close> and \<open>flight_segments[-1]\<close>.\<close>

definition first_item :: "'a list \<Rightarrow> py_error + 'a" where
  "first_item xs = (case xs of [] \<Rightarrow> Inl IndexError | x # _ \<Rightarrow> Inr x)"

definition last_item :: "'a list \<Rightarrow> py_error + 'a" where
  "last_item xs = (if xs = [] then Inl IndexError else Inr (last xs))"

text \<open>The \<open>departure\<close> and \<open>arrival\<close> views: the airport object of a stored segment and its
  time.\<close>

definition endpoint_view :: "json \<Rightarrow> string \<Rightarrow> py_error + json" where
  "endpoint_view seg which =
     ebind (py_index seg which) (\<lambda>airport.
     ebind (py_index airport ''time'') (\<lambda>t.
       Inr (JObj [(''airport'', airport), (''time'', t)])))"

text \<open>The body of the outer loop: \<open>None\<close> is the \<open>continue\<close> that drops an itinerary
  whose \<open>flights\<close> entry is missing or falsy.\<close>

fun transform_itinerary :: "pylib \<Rightarrow> (string \<times> json) list \<Rightarrow> json \<Rightarrow> py_error + json option" where
  "transform_itinerary lib search_params (JObj it) =
     (if \<not> truthy (dict_get it ''flights'' JNull) then Inr None
      else
        ebind (py_index (JObj it) ''flights'') (\<lambda>raw.
        ebind (py_iter raw) (\<lambda>segments.
        ebind (map_err transform_segment segments) (\<lambda>flight_segments.
        ebind (py_float lib (dict_get it ''price'' (JInt 0))) (\<lambda>price.
        ebind (py_int lib (dict_get it ''total_duration'' (JInt 0))) (\<lambda>total_duration.
        ebind (py_len raw) (\<lambda>n.
        ebind (first_item flight_segments) (\<lambda>seg0.
        ebind (endpoint_view seg0 ''departure_airport'') (\<lambda>departure.
        ebind (last_item flight_segments) (\<lambda>segN.
        ebind (endpoint_view segN ''arrival_airport'') (\<lambda>arrival.
          Inr (Some (JObj
            [(''price'', JFloat price),
             (''currency'', dict_get search_params ''currency'' (JStr ''USD'')),
             (''total_duration'', JInt total_duration),
             (''stops'', JInt (int n - 1)),
             (''type'', dict_get it ''type'' (JStr '''')),
             (''airline_logo'', dict_get it ''airline_logo'' (JStr '''')),
             (''segments'', JArr flight_segments),
             (''carbon_emissions'', dict_get it ''carbon_emissions'' (JObj [])),
             (''departure'', departure),
             (''arrival'', arrival)])))))))))))))"
| "transform_itinerary lib search_params _ = Inl AttributeError"

text \<open>The itineraries the loop runs over: \<open>best_flights\<close> then \<open>other_flights\<close>.\<close>

definition all_flights :: "(string \<times> json) list \<Rightarrow> py_error + json list" where
  "all_flights api_response =
     ebind (py_add (dict_get api_response ''best_flights'' (JArr []))
                   (dict_get api_response ''other_flights'' (JArr []))) py_iter"

text \<open>\<open>_transform_flight_data\<close>. The fresh identifier and the clock reading are arguments:
  \<open>uuid\<close> is \<open>str(uuid.uuid4())\<close> and \<open>now\<close> is \<open>datetime.now().isoformat()\<close>.\<close>

definition transform_flight_data ::
  "pylib \<Rightarrow> string \<Rightarrow> string \<Rightarrow> (string \<times> json) list \<Rightarrow> (string \<times> json) list \<Rightarrow> py_error + json" where
  "transform_flight_data lib uuid now api_response search_params =
     ebind (all_flights api_response) (\<lambda>itineraries.
     ebind (map_err (transform_itinerary lib search_params) itineraries) (\<lambda>results.
       Inr (JObj
         [(''search_id'', JStr uuid),
          (''timestamp'', JStr now),
          (''search_params'', JObj search_params),
          (''flights'', JArr (List.map_filter id results)),
          (''status'', JStr ''success'')])))"

section \<open>The result store\<close>

text \<open>
  The storage directory is a table from file names to files. A file holds what
  \<open>json.load\<close> makes of its bytes (a JSON value, or nothing when the bytes do not parse)
  and three flags saying whether \<open>open(..., 'r')\<close>, \<open>open(..., 'w')\<close> and \<open>unlink()\<close>
  succeed on it. \<open>json.dump\<close> followed by \<open>json.load\<close> gives back the value written;
  path resolution by the operating system is not modelled.
\<close>

datatype content = Parsed json | Unparseable

record stored_file =
  content :: content
  can_read :: bool
  can_write :: bool
  can_unlink :: bool

type_synonym fs = "(string \<times> stored_file) list"

text \<open>\<open>f"search_{search_id}.json"\<close>.\<close>

definition file_name :: "string \<Rightarrow> string" where
  "file_name search_id = ''search_'' @ search_id @ ''.json''"

text \<open>\<open>open(path, 'w')\<close> and \<open>json.dump\<close>: an existing file keeps its flags and gets the
  new content, a new file is created with every flag set.\<close>

definition write_json :: "fs \<Rightarrow> string \<Rightarrow> json \<Rightarrow> py_error + fs" where
  "write_json fs name v =
     (case map_of fs name of
        None \<Rightarrow>
          Inr (fs @ [(name, \<lparr>content = Parsed v, can_read = True, can_write = True,
                              can_unlink = True\<rparr>)])
      | Some f \<Rightarrow>
          if can_write f
          then Inr (map (\<lambda>(n, g). if n = name then (n, g\<lparr>content := Parsed v\<rparr>) else (n, g)) fs)
          else Inl PermissionError)"

text \<open>\<open>open(path, 'r')\<close> and \<open>json.load\<close>.\<close>

definition read_json :: "fs \<Rightarrow> string \<Rightarrow> py_error + json" where
  "read_json fs name =
     (case map_of fs name of
        None \<Rightarrow> Inl FileNotFoundError
      | Some f \<Rightarrow>
          if \<not> can_read f then Inl PermissionError
          else (case content f of Unparseable \<Rightarrow> Inl JSONDecodeError | Parsed v \<Rightarrow> Inr v))"


text \<open>\<open>save_search_results\<close>; \<open>now\<close> is \<open>datetime.now().isoformat()\<close>.\<close>

definition save_search_results :: "string \<Rightarrow> fs \<Rightarrow> string \<Rightarrow> json \<Rightarrow> py_error + fs" where
  "save_search_results now fs search_id results =
     write_json fs (file_name search_id)
       (JObj [(''timestamp'', JStr now), (''results'', results)])"

text \<open>\<open>get_search_results\<close>: \<open>None\<close> when the file does not exist, the whole loaded
  document otherwise.\<close>

definition get_search_results :: "fs \<Rightarrow> string \<Rightarrow> py_error + json option" where
  "get_search_results fs search_id =
     (if map_of fs (file_name search_id) \<noteq> None
      then ebind (read_json fs (file_name search_id)) (\<lambda>data. Inr (Some data))
      else Inr None)"









section \<open>The search tool\<close>

text \<open>
  The dict \<open>search_flights\<close> returns, one constructor for each \<open>return\<close>: the success
  dict with its \<open>search_id\<close>, \<open>flights_count\<close>, \<open>currency\<close> and \<open>path\<close> entries, and the
  three error dicts, whose message text is kept as the value it is formatted from.
\<close>

datatype search_result =
    SearchSuccess string nat string string
  | MissingApiKey
  | ApiError json
  | SearchFailed py_error

text \<open>The \<open>search_params\<close> dict the tool builds: a \<open>return_date\<close> of \<open>None\<close> is \<open>JNull\<close>.\<close>

definition make_search_params ::
  "string \<Rightarrow> string \<Rightarrow> string \<Rightarrow> string option \<Rightarrow> (string \<times> json) list" where
  "make_search_params departure_id arrival_id outbound_date return_date =
     [(''departure_id'', JStr departure_id),
      (''arrival_id'', JStr arrival_id),
      (''outbound_date'', JStr outbound_date),
      (''return_date'', (case return_date of None \<Rightarrow> JNull | Some d \<Rightarrow> JStr d)),
      (''currency'', JStr ''INR''),
      (''type'', JInt (if return_date \<noteq> None \<and> return_date \<noteq> Some [] then 1 else 2))]"

text \<open>
  \<open>search_flights\<close>. Its surroundings are arguments: \<open>api_key\<close> is the environment
  variable, \<open>provider\<close> what \<open>GoogleSearch(params).get_dict()\<close> gives (a dict, or the
  exception it raises), \<open>uuid\<close> the fresh identifier, \<open>now\<close> and \<open>saved_at\<close> the clock as the transform and
  the store read it, \<open>temp_dir\<close> and \<open>fs\<close> the storage directory, which the constructor of the store has found or made. It returns
  the result dict and the directory afterwards.
\<close>

definition search_flights ::
  "pylib \<Rightarrow> string option \<Rightarrow> (py_error + (string \<times> json) list) \<Rightarrow> string \<Rightarrow> string \<Rightarrow>
   string \<Rightarrow> string \<Rightarrow> fs \<Rightarrow> string \<Rightarrow> string \<Rightarrow> string \<Rightarrow> string option \<Rightarrow> string \<Rightarrow>
   search_result \<times> fs" where
  "search_flights lib api_key provider uuid now saved_at temp_dir fs
       departure_id arrival_id outbound_date return_date currency =
     (if api_key = None \<or> api_key = Some [] then (MissingApiKey, fs)
      else
        let search_params = make_search_params departure_id arrival_id outbound_date return_date
        in (case provider of
              Inl e \<Rightarrow> (SearchFailed e, fs)
            | Inr api_response \<Rightarrow>
                (case map_of api_response ''error'' of
                   Some msg \<Rightarrow> (ApiError msg, fs)
                 | None \<Rightarrow>
                     (case transform_flight_data lib uuid now api_response search_params of
                        Inl e \<Rightarrow> (SearchFailed e, fs)
                      | Inr transformed_data \<Rightarrow>
                          (case ebind (py_index transformed_data ''search_id'') (\<lambda>sid.
                                  case sid of
                                    JStr s \<Rightarrow>
                                      ebind (save_search_results saved_at fs s transformed_data)
                                        (\<lambda>fs'. ebind (py_index transformed_data ''flights'')
                                           (\<lambda>flights. ebind (py_len flights)
                                              (\<lambda>n. Inr (SearchSuccess s n currency temp_dir, fs'))))
                                  | _ \<Rightarrow> Inl TypeError) of
                             Inl e \<Rightarrow> (SearchFailed e, fs)
                           | Inr r \<Rightarrow> r)))))"

section \<open>The filter tool\<close>

text \<open>
  The \<open>filters\<close> dict, with the keys and value types the docstring of \<open>filter_flights\<close>
  gives; \<open>None\<close> is a key that is not in the dict.
\<close>

record filter_spec =
  search_id :: "string option"
  max_price :: "pyfloat option"
  max_duration :: "int option"
  max_stops :: "int option"
  preferred_airlines :: "string list option"
  departure_time_range :: "(string \<times> string) option"
  sort_by :: "string option"
  sort_order :: "string option"

text \<open>The value of a number as \<open>>\<close> compares it, with no conversion: an int, a float or a
  bool (Python compares an int with a float exactly).\<close>

fun py_num :: "json \<Rightarrow> py_error + pyfloat" where
  "py_num (JInt i) = Inr (FNum (of_int i))"
| "py_num (JFloat x) = Inr x"
| "py_num (JBool b) = Inr (FNum (if b then 1 else 0))"
| "py_num _ = Inl TypeError"

text \<open>\<open>k in x\<close> for a string \<open>k\<close>: a key of a dict, an item of a list, a substring of a
  string.\<close>

fun py_contains :: "json \<Rightarrow> string \<Rightarrow> py_error + bool" where
  "py_contains (JObj d) k = Inr (map_of d k \<noteq> None)"
| "py_contains (JArr xs) k = Inr (JStr k \<in> set xs)"
| "py_contains (JStr s) k = Inr (sublist k s)"
| "py_contains _ k = Inl TypeError"

text \<open>An item can go into a set unless it is a list or a dict.\<close>

fun hashable :: "json \<Rightarrow> py_error + json" where
  "hashable (JArr xs) = Inl TypeError"
| "hashable (JObj d) = Inl TypeError"
| "hashable v = Inr v"

text \<open>\<open>flights_data["results"]["flights"] if flights_data and "results" in flights_data
  else []\<close>, for a truthy \<open>flights_data\<close>.\<close>

definition stored_flights :: "json \<Rightarrow> py_error + json" where
  "stored_flights flights_data =
     ebind (py_contains flights_data ''results'') (\<lambda>has.
       if has then ebind (py_index flights_data ''results'') (\<lambda>r. py_index r ''flights'')
       else Inr (JArr []))"

text \<open>The five tests of the loop body. Each gives \<open>True\<close> when its key is not in
  \<open>filters\<close>, and \<open>False\<close> where the source says \<open>continue\<close>.\<close>

definition price_ok :: "pylib \<Rightarrow> filter_spec \<Rightarrow> json \<Rightarrow> py_error + bool" where
  "price_ok lib filters flight =
     (case max_price filters of
        None \<Rightarrow> Inr True
      | Some p \<Rightarrow>
          ebind (py_get flight ''price'' (JFloat FPosInf)) (\<lambda>v.
          ebind (py_float lib v) (\<lambda>x. Inr (\<not> float_gt x p))))"

definition duration_ok :: "pylib \<Rightarrow> filter_spec \<Rightarrow> json \<Rightarrow> py_error + bool" where
  "duration_ok lib filters flight =
     (case max_duration filters of
        None \<Rightarrow> Inr True
      | Some m \<Rightarrow>
          ebind (py_get flight ''total_duration'' (JFloat FPosInf)) (\<lambda>v.
          ebind (py_int lib v) (\<lambda>d. Inr (\<not> d > m))))"

definition stops_ok :: "filter_spec \<Rightarrow> json \<Rightarrow> py_error + bool" where
  "stops_ok filters flight =
     (case max_stops filters of
        None \<Rightarrow> Inr True
      | Some m \<Rightarrow>
          ebind (py_get flight ''stops'' (JInt 0)) (\<lambda>v.
          ebind (py_num v) (\<lambda>s. Inr (\<not> float_gt s (FNum (of_int m))))))"

definition airline_ok :: "filter_spec \<Rightarrow> json \<Rightarrow> py_error + bool" where
  "airline_ok filters flight =
     (case preferred_airlines filters of
        None \<Rightarrow> Inr True
      | Some preferred \<Rightarrow>
          ebind (py_index flight ''segments'') (\<lambda>segments.
          ebind (py_iter segments) (\<lambda>items.
          ebind (map_err (\<lambda>segment. ebind (py_index segment ''airline'') hashable) items)
            (\<lambda>segment_airlines.
               Inr (list_ex (\<lambda>airline. case airline of JStr a \<Rightarrow> a \<in> set preferred | _ \<Rightarrow> False)
                      segment_airlines)))))"

definition time_ok :: "filter_spec \<Rightarrow> json \<Rightarrow> py_error + bool" where
  "time_ok filters flight =
     (case departure_time_range filters of
        None \<Rightarrow> Inr True
      | Some (start_time, end_time) \<Rightarrow>
          ebind (py_index flight ''departure'') (\<lambda>departure.
          ebind (py_index departure ''time'') (\<lambda>departure_time.
            case departure_time of
              JStr t \<Rightarrow> Inr (start_time \<le> t \<and> t \<le> end_time)
            | _ \<Rightarrow> Inl TypeError)))"

text \<open>One test after the other: a \<open>continue\<close> skips the tests that follow.\<close>

definition and_then :: "py_error + bool \<Rightarrow> py_error + bool \<Rightarrow> py_error + bool" where
  "and_then m n = ebind m (\<lambda>b. if b then n else Inr False)"

definition keeps :: "pylib \<Rightarrow> filter_spec \<Rightarrow> json \<Rightarrow> py_error + bool" where
  "keeps lib filters flight =
     and_then (price_ok lib filters flight)
    (and_then (duration_ok lib filters flight)
    (and_then (stops_ok filters flight)
    (and_then (airline_ok filters flight)
              (time_ok filters flight))))"

text \<open>The loop that fills \<open>filtered_flights\<close>.\<close>

fun filter_loop :: "pylib \<Rightarrow> filter_spec \<Rightarrow> json list \<Rightarrow> py_error + json list" where
  "filter_loop lib filters [] = Inr []"
| "filter_loop lib filters (flight # flights) =
     ebind (keeps lib filters flight) (\<lambda>keep.
     ebind (filter_loop lib filters flights) (\<lambda>rest.
       Inr (if keep then flight # rest else rest)))"

text \<open>
  The key of a flight. A price and a duration are numbers; a departure time is whatever the
  document holds.
\<close>

fun raw_key :: "json \<Rightarrow> sort_value" where
  "raw_key (JInt i) = KNum (FNum (of_int i))"
| "raw_key (JFloat x) = KNum x"
| "raw_key (JBool b) = KNum (FNum (if b then 1 else 0))"
| "raw_key (JStr s) = KStr s"
| "raw_key v = KOther v"

definition price_key :: "pylib \<Rightarrow> json \<Rightarrow> py_error + sort_value" where
  "price_key lib x =
     ebind (py_get x ''price'' (JFloat FPosInf)) (\<lambda>v.
     ebind (py_float lib v) (\<lambda>p. Inr (KNum p)))"

definition duration_key :: "pylib \<Rightarrow> json \<Rightarrow> py_error + sort_value" where
  "duration_key lib x =
     ebind (py_get x ''total_duration'' (JInt 0)) (\<lambda>v.
     ebind (py_int lib v) (\<lambda>d. Inr (KNum (FNum (of_int d)))))"

definition departure_time_key :: "json \<Rightarrow> py_error + sort_value" where
  "departure_time_key x =
     ebind (py_index x ''departure'') (\<lambda>d.
     ebind (py_index d ''time'') (\<lambda>t. Inr (raw_key t)))"

text \<open>Keys that \<open><\<close> orders linearly: numbers none of which is NaN, or strings.\<close>

fun ordered_num :: "sort_value \<Rightarrow> bool" where
  "ordered_num (KNum (Ordered x)) = True"
| "ordered_num _ = False"

fun num_of :: "sort_value \<Rightarrow> xrat" where
  "num_of (KNum (Ordered x)) = x"
| "num_of _ = XFin 0"

fun is_str :: "sort_value \<Rightarrow> bool" where
  "is_str (KStr s) = True"
| "is_str _ = False"

fun str_of :: "sort_value \<Rightarrow> string" where
  "str_of (KStr s) = s"
| "str_of _ = []"

text \<open>
  \<open>list.sort(key=..., reverse=...)\<close> on keys of a linear order. The library's sort is
  stable; with \<open>reverse=True\<close> it reverses the list, sorts it and reverses the result.
\<close>

definition py_sort :: "('k::linorder) list \<Rightarrow> 'a list \<Rightarrow> bool \<Rightarrow> 'a list" where
  "py_sort ks xs reverse =
     map snd (if reverse then rev (sort_key fst (rev (zip ks xs)))
              else sort_key fst (zip ks xs))"

text \<open>The items put at the positions the library gives for them (a position that is
  missing counts as 0; items given the same position keep their order).\<close>

definition arrange :: "nat list \<Rightarrow> 'a list \<Rightarrow> 'a list" where
  "arrange positions xs =
     map snd (sort_key fst (zip (take (length xs) (positions @ replicate (length xs) 0)) xs))"

text \<open>
  The sort of the flights by keys already computed. A list of at most one flight is left
  as it is; keys that are linearly ordered give the stable sort; for any other keys the
  outcome is the library's.
\<close>

definition sort_flights ::
  "pylib \<Rightarrow> sort_value list \<Rightarrow> json list \<Rightarrow> bool \<Rightarrow> py_error + json list" where
  "sort_flights lib ks xs reverse =
     (if length xs \<le> 1 then Inr xs
      else if list_all ordered_num ks then Inr (py_sort (map num_of ks) xs reverse)
      else if list_all is_str ks then Inr (py_sort (map str_of ks) xs reverse)
      else ebind (sort_unordered lib ks reverse) (\<lambda>positions. Inr (arrange positions xs)))"

text \<open>The sorting step: the \<open>if\<close>/\<open>elif\<close> chain on \<open>sort_by\<close>.\<close>

definition apply_sort :: "pylib \<Rightarrow> filter_spec \<Rightarrow> json list \<Rightarrow> py_error + json list" where
  "apply_sort lib filters filtered_flights =
     (case sort_by filters of
        None \<Rightarrow> Inr filtered_flights
      | Some key \<Rightarrow>
          let reverse = ((case sort_order filters of None \<Rightarrow> ''asc'' | Some v \<Rightarrow> v) = ''desc'')
          in if key = ''price'' then
               ebind (map_err (price_key lib) filtered_flights)
                 (\<lambda>ks. sort_flights lib ks filtered_flights reverse)
             else if key = ''duration'' then
               ebind (map_err (duration_key lib) filtered_flights)
                 (\<lambda>ks. sort_flights lib ks filtered_flights reverse)
             else if key = ''departure_time'' then
               ebind (map_err departure_time_key filtered_flights)
                 (\<lambda>ks. sort_flights lib ks filtered_flights reverse)
             else Inr filtered_flights)"

text \<open>The two dicts \<open>filter_flights\<close> returns. The \<open>storage\<close> entry is the path of the
  document, written as text.\<close>

definition not_found :: json where
  "not_found =
     JObj [(''status'', JStr ''error''),
           (''error'', JStr ''No search results found for the provided search ID'')]"

definition filter_result :: "nat \<Rightarrow> nat \<Rightarrow> json list \<Rightarrow> string \<Rightarrow> json" where
  "filter_result filtered_count total_count flights path =
     JObj [(''filtered_count'', JInt (int filtered_count)),
           (''total_count'', JInt (int total_count)),
           (''flights'', JArr flights),
           (''storage'', JStr path)]"

text \<open>\<open>str(search_id)\<close> inside the f-string: a missing key formats as \<open>None\<close>.\<close>

definition id_text :: "string option \<Rightarrow> string" where
  "id_text sid = (case sid of None \<Rightarrow> ''None'' | Some s \<Rightarrow> s)"

text \<open>\<open>filter_flights\<close>, on the storage directory \<open>temp_dir\<close> with contents \<open>fs\<close>.\<close>

definition filter_flights :: "pylib \<Rightarrow> string \<Rightarrow> fs \<Rightarrow> filter_spec \<Rightarrow> py_error + json" where
  "filter_flights lib temp_dir fs filters =
     ebind (get_search_results fs (id_text (search_id filters))) (\<lambda>flights_data.
       case flights_data of
         None \<Rightarrow> Inr not_found
       | Some data \<Rightarrow>
           if \<not> truthy data then Inr not_found
           else
             ebind (stored_flights data) (\<lambda>flights.
             ebind (py_iter flights) (\<lambda>items.
             ebind (filter_loop lib filters items) (\<lambda>filtered_flights.
             ebind (apply_sort lib filters filtered_flights) (\<lambda>sorted_flights.
               Inr (filter_result (length sorted_flights) (length items) sorted_flights
                      (temp_dir @ ''/'' @ file_name (id_text (search_id filters)))))))))"

section \<open>Reference predicates and example data\<close>

text \<open>An airport entry of a provider segment that carries the three required fields.\<close>

definition airport_complete :: "json option \<Rightarrow> bool" where
  "airport_complete a =
     (case a of
        Some (JObj d) \<Rightarrow> map_of d ''name'' \<noteq> None \<and> map_of d ''id'' \<noteq> None \<and> map_of d ''time'' \<noteq> None
      | _ \<Rightarrow> False)"

text \<open>The segment fields read with \<open>.get\<close>, each with its default.\<close>

definition optional_fields :: "(string \<times> json) list" where
  "optional_fields =
     [(''airline'', JStr ''''), (''flight_number'', JStr ''''), (''airplane'', JStr ''''),
      (''travel_class'', JStr ''''), (''duration'', JInt 0), (''airline_logo'', JStr ''''),
      (''legroom'', JStr ''''), (''overnight'', JBool False), (''plane_and_crew_by'', JStr ''''),
      (''often_delayed_by_over_30_min'', JBool False)]"


text \<open>
  Example data. The parsers of the example know no number written as text and two
  timestamps, counted in microseconds from the first. Its sort knows one list of keys that
  are not linearly ordered, the prices \<open>nan, nan, 5.0, nan, 1.0, 0.0, 1.0\<close> in ascending
  order: \<open>list.sort\<close> takes the first five as an ascending run (no key tests less than the
  one before it) and inserts \<open>0.0\<close> and the last \<open>1.0\<close> by binary search, which puts them
  third and fourth, before the earlier \<open>1.0\<close>.
\<close>

definition example_lib :: pylib where
  "example_lib =
     \<lparr>float_of_str = (\<lambda>s. None),
      int_of_str = (\<lambda>s. None),
      fromisoformat = (\<lambda>s. if s = ''2025-01-01T00:00:00'' then Some (Naive 0)
                            else if s = ''2025-01-03T00:00:00'' then Some (Naive 172800000000)
                            else None),
      sort_unordered = (\<lambda>ks reverse.
                          if ks = map KNum [FNaN, FNaN, FNum 5, FNaN, FNum 1, FNum 0, FNum 1]
                             \<and> \<not> reverse
                          then Inr [0, 1, 4, 5, 6, 2, 3]
                          else Inr [0..<length ks])\<rparr>"

definition example_segment :: "string \<Rightarrow> string \<Rightarrow> string \<Rightarrow> string \<Rightarrow> string \<Rightarrow> json" where
  "example_segment airline origin departs destination arrives =
     JObj [(''airline'', JStr airline),
           (''departure_airport'',
              JObj [(''name'', JStr origin), (''id'', JStr origin), (''time'', JStr departs)]),
           (''arrival_airport'',
              JObj [(''name'', JStr destination), (''id'', JStr destination),
                    (''time'', JStr arrives)])]"

text \<open>A provider response: a one-stop itinerary and an itinerary without segments among
  the best flights, a direct itinerary at the same price among the others.\<close>

definition example_response :: "(string \<times> json) list" where
  "example_response =
     [(''best_flights'', JArr
        [JObj [(''flights'', JArr
                  [example_segment ''AA'' ''ORD'' ''2025-02-01 08:00'' ''DFW'' ''2025-02-01 10:30'',
                   example_segment ''AA'' ''DFW'' ''2025-02-01 12:00'' ''LAX'' ''2025-02-01 13:40'']),
               (''price'', JInt 350), (''total_duration'', JInt 420)],
         JObj [(''flights'', JArr []), (''price'', JInt 99)]]),
      (''other_flights'', JArr
        [JObj [(''flights'', JArr
                  [example_segment ''UA'' ''ORD'' ''2025-02-01 07:00'' ''LAX'' ''2025-02-01 09:20'']),
               (''price'', JInt 350), (''total_duration'', JInt 260)]])]"

text \<open>A search on the empty directory, and what it stores.\<close>

definition example_search :: "string \<Rightarrow> search_result \<times> fs" where
  "example_search currency =
     search_flights example_lib (Some ''key'') (Inr example_response) ''id1''
       ''2025-01-01T00:00:00'' ''2025-01-01T00:00:00'' ''/tmp/flights'' []
       ''ORD'' ''LAX'' ''2025-02-01'' None currency"

definition example_params :: "(string \<times> json) list" where
  "example_params = make_search_params ''ORD'' ''LAX'' ''2025-02-01'' None"

definition example_record :: json where
  "example_record =
     (case transform_flight_data example_lib ''id1'' ''2025-01-01T00:00:00'' example_response
             example_params of
        Inr out \<Rightarrow> out
      | Inl e \<Rightarrow> JNull)"

definition example_flights :: "json list" where
  "example_flights =
     (case ebind (py_index example_record ''flights'') py_iter of
        Inr flights \<Rightarrow> flights
      | Inl e \<Rightarrow> [])"

definition bare_segment :: "(string \<times> json) list" where
  "bare_segment =
     [(''departure_airport'',
         JObj [(''name'', JStr ''ORD''), (''id'', JStr ''ORD''), (''time'', JStr ''2025-02-01 08:00'')]),
      (''arrival_airport'',
         JObj [(''name'', JStr ''LAX''), (''id'', JStr ''LAX''), (''time'', JStr ''2025-02-01 10:30'')])]"

definition broken_segment :: "(string \<times> json) list" where
  "broken_segment =
     [(''airline'', JStr ''AA''),
      (''departure_airport'',
         JObj [(''name'', JStr ''ORD''), (''id'', JStr ''ORD''), (''time'', JStr ''2025-02-01 08:00'')]),
      (''arrival_airport'', JObj [(''name'', JStr ''LAX''), (''id'', JStr ''LAX'')])]"

definition example_store :: fs where
  "example_store = snd (example_search ''USD'')"

definition small_record :: json where
  "small_record = JObj [(''search_id'', JStr ''abc''), (''flights'', JArr []), (''status'', JStr ''success'')]"

definition small_store :: fs where
  "small_store =
     [(file_name ''abc'',
       \<lparr>content = Parsed (JObj [(''timestamp'', JStr ''2025-01-01T00:00:00''),
                                (''results'', small_record)]),
        can_read = True, can_write = True, can_unlink = True\<rparr>)]"





text \<open>The key of a flight under each recognised \<open>sort_by\<close>, and its price as the price
  test reads it.\<close>

definition flight_key :: "pylib \<Rightarrow> string \<Rightarrow> json \<Rightarrow> py_error + sort_value" where
  "flight_key lib sb x =
     (if sb = ''price'' then price_key lib x
      else if sb = ''duration'' then duration_key lib x
      else departure_time_key x)"

definition flight_price :: "pylib \<Rightarrow> json \<Rightarrow> py_error + pyfloat" where
  "flight_price lib x = ebind (py_get x ''price'' (JFloat FPosInf)) (py_float lib)"

text \<open>Filter specs on the stored example search.\<close>

definition no_filters :: "string \<Rightarrow> filter_spec" where
  "no_filters sid =
     \<lparr>search_id = Some sid, max_price = None, max_duration = None, max_stops = None,
      preferred_airlines = None, departure_time_range = None, sort_by = None,
      sort_order = None\<rparr>"

definition example_path :: string where
  "example_path = ''/tmp/flights/search_id1.json''"

definition cheap_direct :: filter_spec where
  "cheap_direct = (no_filters ''id1'')\<lparr>max_price := Some (FNum 400), max_stops := Some 0\<rparr>"

definition by_price_desc :: filter_spec where
  "by_price_desc = (no_filters ''id1'')\<lparr>sort_by := Some ''price'', sort_order := Some ''desc''\<rparr>"


definition linearly_ordered_keys :: "pylib \<Rightarrow> string \<Rightarrow> json list \<Rightarrow> bool" where
  "linearly_ordered_keys lib sb xs =
     (list_all (\<lambda>x. case flight_key lib sb x of Inr k \<Rightarrow> ordered_num k | Inl e \<Rightarrow> False) xs
      \<or> list_all (\<lambda>x. case flight_key lib sb x of Inr k \<Rightarrow> is_str k | Inl e \<Rightarrow> False) xs)"

definition priced_itinerary :: "string \<Rightarrow> pyfloat \<Rightarrow> json" where
  "priced_itinerary label price =
     JObj [(''flights'', JArr
              [example_segment ''AA'' ''ORD'' ''2025-02-01 08:00'' ''LAX'' ''2025-02-01 10:30'']),
           (''price'', JFloat price), (''total_duration'', JInt 150), (''type'', JStr label)]"

definition nan_response :: "(string \<times> json) list" where
  "nan_response =
     [(''best_flights'', JArr
        [priced_itinerary ''a'' FNaN, priced_itinerary ''b'' FNaN,
         priced_itinerary ''c'' (FNum 5), priced_itinerary ''d'' FNaN,
         priced_itinerary ''e'' (FNum 1), priced_itinerary ''f'' (FNum 0),
         priced_itinerary ''g'' (FNum 1)])]"

definition nan_store :: fs where
  "nan_store =
     snd (search_flights example_lib (Some ''key'') (Inr nan_response) ''n1''
            ''2025-01-01T00:00:00'' ''2025-01-01T00:00:00'' ''/tmp/flights'' []
            ''ORD'' ''LAX'' ''2025-02-01'' None ''INR'')"

definition nan_flights :: "json list" where
  "nan_flights =
     (case ebind (read_json nan_store (file_name ''n1'')) (\<lambda>doc.
             ebind (py_index doc ''results'') (\<lambda>r.
             ebind (py_index r ''flights'') py_iter)) of
        Inr flights \<Rightarrow> flights
      | Inl e \<Rightarrow> [])"

definition nan_path :: string where
  "nan_path = ''/tmp/flights/search_n1.json''"

definition at_most_two :: filter_spec where
  "at_most_two = (no_filters ''n1'')\<lparr>max_price := Some (FNum 2)\<rparr>"

definition nan_by_price :: filter_spec where
  "nan_by_price = (no_filters ''n1'')\<lparr>sort_by := Some ''price''\<rparr>"

section \<open>Properties\<close>

lemma ebind_Inl [simp]: "ebind (Inl e) f = Inl e" by (simp add: ebind_def)

lemma ebind_Inr [simp]: "ebind (Inr x) f = f x" by (simp add: ebind_def)

lemma ebind_eq_Inr: "(ebind m f = Inr y) = (\<exists>x. m = Inr x \<and> f x = Inr y)"
  by (cases m) simp_all

lemma map_err_Inr_length: "map_err f xs = Inr ys \<Longrightarrow> length ys = length xs"
  by (induction xs arbitrary: ys) (auto simp: ebind_eq_Inr)

lemma map_err_Inr_all2: "map_err f xs = Inr ys \<Longrightarrow> list_all2 (\<lambda>x y. f x = Inr y) xs ys"
  by (induction xs arbitrary: ys) (auto simp: ebind_eq_Inr)

lemma airport_view_Inr: "(\<exists>v. airport_view a = Inr v) = airport_complete (Some a)"
  by (cases a) (auto simp: airport_view_def airport_complete_def ebind_eq_Inr split: option.splits)

lemma seg_airport_Inr:
  "(\<exists>v. ebind (py_index (JObj seg) k) airport_view = Inr v) = airport_complete (map_of seg k)"
proof (cases "map_of seg k")
  case None
  then show ?thesis by (simp add: airport_complete_def)
next
  case (Some a)
  then show ?thesis using airport_view_Inr [of a] by simp
qed

lemma ts_success:
  assumes "airport_complete (map_of seg ''departure_airport'')"
      and "airport_complete (map_of seg ''arrival_airport'')"
  shows "\<exists>out. transform_segment (JObj seg) = Inr out \<and>
           list_all (\<lambda>(k, dflt). py_index out k = Inr (dict_get seg k dflt)) optional_fields"
proof -
  obtain dep where d: "ebind (py_index (JObj seg) ''departure_airport'') airport_view = Inr dep"
    using assms(1) seg_airport_Inr by blast
  obtain arr where a: "ebind (py_index (JObj seg) ''arrival_airport'') airport_view = Inr arr"
    using assms(2) seg_airport_Inr by blast
  show ?thesis
    unfolding transform_segment.simps d a ebind_Inr
    by (simp add: optional_fields_def)
qed

lemma ts_failure:
  assumes "\<not> (airport_complete (map_of seg ''departure_airport'') \<and>
              airport_complete (map_of seg ''arrival_airport''))"
  shows "\<exists>e. transform_segment (JObj seg) = Inl e"
proof (cases "transform_segment (JObj seg)")
  case (Inl e)
  then show ?thesis by blast
next
  case (Inr out)
  then have "(\<exists>v. ebind (py_index (JObj seg) ''departure_airport'') airport_view = Inr v)
     \<and> (\<exists>v. ebind (py_index (JObj seg) ''arrival_airport'') airport_view = Inr v)"
    by (auto simp: ebind_eq_Inr)
  then show ?thesis using assms seg_airport_Inr by blast
qed

lemma first_item_Inr: "first_item xs = Inr x \<Longrightarrow> xs \<noteq> [] \<and> x = hd xs"
  by (cases xs) (simp_all add: first_item_def)

lemma last_item_Inr: "last_item xs = Inr x \<Longrightarrow> xs \<noteq> [] \<and> x = last xs"
  by (simp add: last_item_def split: if_splits)

lemma endpoint_view_Inr:
  "endpoint_view seg which = Inr v \<Longrightarrow>
     \<exists>airport t. py_index seg which = Inr airport \<and> py_index airport ''time'' = Inr t \<and>
       v = JObj [(''airport'', airport), (''time'', t)]"
  by (auto simp: endpoint_view_def ebind_eq_Inr)

lemma ebindE:
  assumes "ebind m f = Inr y"
  obtains x where "m = Inr x" and "f x = Inr y"
  using assms by (auto simp: ebind_eq_Inr)


lemma transform_itinerary_Some:
  assumes "transform_itinerary lib sp it = Inr (Some f)"
  shows "\<exists>segs departure arrival.
           segs \<noteq> [] \<and> py_index f ''segments'' = Inr (JArr segs) \<and>
           endpoint_view (hd segs) ''departure_airport'' = Inr departure \<and>
           endpoint_view (last segs) ''arrival_airport'' = Inr arrival \<and>
           py_index f ''departure'' = Inr departure \<and>
           py_index f ''arrival'' = Inr arrival"
proof (cases it)
  case (JObj d)
  with assms have t: "truthy (dict_get d ''flights'' JNull)"
    by (auto split: if_splits)
  from assms JObj t show ?thesis
    apply (simp del: truthy.simps)
    apply (elim ebindE)
    subgoal for raw segments fsegs price dur n seg0 departure segN arrival
      apply (rule exI [of _ fsegs])
      apply (drule first_item_Inr)
      apply (drule last_item_Inr)
      apply clarsimp
      done
    done
qed (use assms in simp_all)

lemma transform_itinerary_currency:
  assumes "transform_itinerary lib sp it = Inr (Some f)"
  shows "py_index f ''currency'' = Inr (dict_get sp ''currency'' (JStr ''USD''))"
proof (cases it)
  case (JObj d)
  with assms have t: "truthy (dict_get d ''flights'' JNull)"
    by (auto split: if_splits)
  from assms JObj t show ?thesis
    apply (simp del: truthy.simps)
    apply (elim ebindE)
    apply auto
    done
qed (use assms in simp_all)

lemma map_err_member:
  "map_err f xs = Inr ys \<Longrightarrow> y \<in> set ys \<Longrightarrow> \<exists>x\<in>set xs. f x = Inr y"
  by (induction xs arbitrary: ys) (auto simp: ebind_eq_Inr)

lemma map_filter_id_member: "(f \<in> set (List.map_filter id rs)) = (Some f \<in> set rs)"
  by (induction rs) (auto split: option.splits)

lemma transform_flight_data_Inr:
  assumes "transform_flight_data lib uuid now resp sp = Inr out"
  shows "\<exists>its results.
           all_flights resp = Inr its \<and>
           map_err (transform_itinerary lib sp) its = Inr results \<and>
           out = JObj [(''search_id'', JStr uuid), (''timestamp'', JStr now),
                       (''search_params'', JObj sp),
                       (''flights'', JArr (List.map_filter id results)),
                       (''status'', JStr ''success'')]"
  using assms unfolding transform_flight_data_def
  apply (elim ebindE)
  apply simp
  done

lemma transform_flight_member:
  assumes "transform_flight_data lib uuid now resp sp = Inr out"
      and "py_index out ''flights'' = Inr (JArr flights)"
      and "f \<in> set flights"
  shows "\<exists>it. transform_itinerary lib sp it = Inr (Some f)"
proof -
  from transform_flight_data_Inr [OF assms(1)] obtain its results where
    r: "map_err (transform_itinerary lib sp) its = Inr results"
    and o: "out = JObj [(''search_id'', JStr uuid), (''timestamp'', JStr now),
                       (''search_params'', JObj sp),
                       (''flights'', JArr (List.map_filter id results)),
                       (''status'', JStr ''success'')]"
    by blast
  from o assms(2) have "flights = List.map_filter id results" by simp
  with assms(3) have "Some f \<in> set results" by (simp add: map_filter_id_member)
  then show ?thesis using map_err_member [OF r] by blast
qed



lemma map_of_rewrite:
  "map_of fs name = Some f \<Longrightarrow>
     map_of (map (\<lambda>(n, g). if n = name then (n, h g) else (n, g)) fs) name = Some (h f)"
  by (induction fs) (auto split: if_splits)

lemma write_json_Inr:
  assumes "write_json fs name v = Inr fs'"
  shows "\<exists>f. map_of fs' name = Some f \<and> content f = Parsed v \<and>
           can_read f = (case map_of fs name of None \<Rightarrow> True | Some g \<Rightarrow> can_read g)"
proof (cases "map_of fs name")
  case None
  with assms show ?thesis
    by (auto simp: write_json_def map_add_def split: option.splits)
next
  case (Some g)
  with assms have w: "can_write g"
    and fs': "fs' = map (\<lambda>(n, k). if n = name then (n, k\<lparr>content := Parsed v\<rparr>) else (n, k)) fs"
    by (auto simp: write_json_def split: if_splits)
  from map_of_rewrite [OF Some, of "\<lambda>k. k\<lparr>content := Parsed v\<rparr>"] fs' Some
  show ?thesis by simp
qed

lemma get_after_save:
  assumes "save_search_results now fs s r = Inr fs'"
      and "case map_of fs (file_name s) of None \<Rightarrow> True | Some f \<Rightarrow> can_read f"
  shows "get_search_results fs' s = Inr (Some (JObj [(''timestamp'', JStr now), (''results'', r)]))"
proof -
  from assms(1) obtain f where
    "map_of fs' (file_name s) = Some f"
    "content f = Parsed (JObj [(''timestamp'', JStr now), (''results'', r)])"
    "can_read f = (case map_of fs (file_name s) of None \<Rightarrow> True | Some g \<Rightarrow> can_read g)"
    unfolding save_search_results_def using write_json_Inr by blast
  with assms(2) show ?thesis
    by (simp add: get_search_results_def read_json_def)
qed


text \<open>
  Claim C8. A segment converts exactly when its \<open>departure_airport\<close> and \<open>arrival_airport\<close>
  are both objects that carry \<open>name\<close>, \<open>id\<close> and \<open>time\<close>: if one of the six is missing the
  conversion of that segment raises, and nothing is put in its place. When the six are there
  the conversion succeeds whatever else is missing, and each of the other fields
  (\<open>optional_fields\<close>) is the provider's value or, when the key is absent, its default.
\<close>
theorem segment_required_fields:
  "(airport_complete (map_of seg ''departure_airport'') \<and>
    airport_complete (map_of seg ''arrival_airport'') \<longrightarrow>
      (\<exists>out. transform_segment (JObj seg) = Inr out \<and>
         list_all (\<lambda>(k, dflt). py_index out k = Inr (dict_get seg k dflt)) optional_fields))
   \<and> (\<not> (airport_complete (map_of seg ''departure_airport'') \<and>
           airport_complete (map_of seg ''arrival_airport'')) \<longrightarrow>
         (\<exists>e. transform_segment (JObj seg) = Inl e))"
  using ts_success [of seg] ts_failure [of seg] by blast

theorem segment_required_fields_witness:
  "airport_complete (map_of bare_segment ''departure_airport'') \<and>
   airport_complete (map_of bare_segment ''arrival_airport'') \<and>
   (\<exists>out. transform_segment (JObj bare_segment) = Inr out \<and>
      list_all (\<lambda>(k, dflt). py_index out k = Inr (dict_get bare_segment k dflt)) optional_fields) \<and>
   \<not> (airport_complete (map_of broken_segment ''departure_airport'') \<and>
       airport_complete (map_of broken_segment ''arrival_airport'')) \<and>
   (\<exists>e. transform_segment (JObj broken_segment) = Inl e)"
proof -
  have a: "airport_complete (map_of bare_segment ''departure_airport'') \<and>
           airport_complete (map_of bare_segment ''arrival_airport'')"
    by (simp add: bare_segment_def airport_complete_def)
  have b: "\<not> (airport_complete (map_of broken_segment ''departure_airport'') \<and>
               airport_complete (map_of broken_segment ''arrival_airport''))"
    by (simp add: broken_segment_def airport_complete_def)
  from a b segment_required_fields [of bare_segment] segment_required_fields [of broken_segment]
  show ?thesis by blast
qed

text \<open>
  Claim C6. Every flight in the output of the transform has at least one segment; its
  \<open>departure\<close> is the pair of the first segment's departure airport and that airport's
  time, and its \<open>arrival\<close> is the pair of the last segment's arrival airport and that
  airport's time.
\<close>
theorem derived_departure_arrival:
  assumes "transform_flight_data lib uuid now resp sp = Inr out"
      and "py_index out ''flights'' = Inr (JArr flights)"
      and "f \<in> set flights"
  shows "\<exists>segs dep_airport dep_time arr_airport arr_time.
           py_index f ''segments'' = Inr (JArr segs) \<and> segs \<noteq> [] \<and>
           py_index (hd segs) ''departure_airport'' = Inr dep_airport \<and>
           py_index dep_airport ''time'' = Inr dep_time \<and>
           py_index f ''departure'' = Inr (JObj [(''airport'', dep_airport), (''time'', dep_time)]) \<and>
           py_index (last segs) ''arrival_airport'' = Inr arr_airport \<and>
           py_index arr_airport ''time'' = Inr arr_time \<and>
           py_index f ''arrival'' = Inr (JObj [(''airport'', arr_airport), (''time'', arr_time)])"
proof -
  from transform_flight_member [OF assms] obtain it where
    "transform_itinerary lib sp it = Inr (Some f)" by blast
  from transform_itinerary_Some [OF this] obtain segs departure arrival where
    s: "segs \<noteq> []" "py_index f ''segments'' = Inr (JArr segs)"
    and d: "endpoint_view (hd segs) ''departure_airport'' = Inr departure"
    and a: "endpoint_view (last segs) ''arrival_airport'' = Inr arrival"
    and f: "py_index f ''departure'' = Inr departure" "py_index f ''arrival'' = Inr arrival"
    by blast
  from endpoint_view_Inr [OF d] obtain da dt where
    d': "py_index (hd segs) ''departure_airport'' = Inr da" "py_index da ''time'' = Inr dt"
        "departure = JObj [(''airport'', da), (''time'', dt)]"
    by blast
  from endpoint_view_Inr [OF a] obtain aa at' where
    a': "py_index (last segs) ''arrival_airport'' = Inr aa" "py_index aa ''time'' = Inr at'"
        "arrival = JObj [(''airport'', aa), (''time'', at')]"
    by blast
  from s d' a' f show ?thesis by simp
qed

theorem derived_departure_arrival_witness:
  "transform_flight_data example_lib ''id1'' ''2025-01-01T00:00:00'' example_response
      example_params = Inr example_record \<and>
   py_index example_record ''flights'' = Inr (JArr example_flights) \<and>
   hd example_flights \<in> set example_flights \<and>
   (\<exists>segs dep_airport dep_time arr_airport arr_time.
      py_index (hd example_flights) ''segments'' = Inr (JArr segs) \<and> segs \<noteq> [] \<and>
      py_index (hd segs) ''departure_airport'' = Inr dep_airport \<and>
      py_index dep_airport ''time'' = Inr dep_time \<and>
      py_index (hd example_flights) ''departure''
        = Inr (JObj [(''airport'', dep_airport), (''time'', dep_time)]) \<and>
      py_index (last segs) ''arrival_airport'' = Inr arr_airport \<and>
      py_index arr_airport ''time'' = Inr arr_time \<and>
      py_index (hd example_flights) ''arrival''
        = Inr (JObj [(''airport'', arr_airport), (''time'', arr_time)]))"
proof -
  have h1: "transform_flight_data example_lib ''id1'' ''2025-01-01T00:00:00'' example_response
      example_params = Inr example_record"
    by code_simp
  have h2: "py_index example_record ''flights'' = Inr (JArr example_flights)"
    by code_simp
  have h3: "hd example_flights \<in> set example_flights"
    by code_simp
  from h1 h2 h3 derived_departure_arrival [OF h1 h2 h3] show ?thesis by blast
qed

text \<open>
  Claim C1 says that the stored \<open>search_params\<close> and every stored flight carry the
  currency code the search was called with. The search below is called with \<open>USD\<close>: it
  succeeds and its reply says \<open>USD\<close>, but the stored \<open>search_params\<close> and both stored
  flights say \<open>INR\<close>, the constant \<open>search_flights\<close> writes into \<open>search_params\<close> in place
  of its argument.
\<close>
theorem search_currency_is_inr:
  "fst (example_search ''USD'') = SearchSuccess ''id1'' 2 ''USD'' ''/tmp/flights'' \<and>
   ebind (read_json (snd (example_search ''USD'')) (file_name ''id1'')) (\<lambda>doc.
     ebind (py_index doc ''results'') (\<lambda>r.
     ebind (py_index r ''search_params'') (\<lambda>p. py_index p ''currency'')))
     = Inr (JStr ''INR'') \<and>
   ebind (read_json (snd (example_search ''USD'')) (file_name ''id1'')) (\<lambda>doc.
     ebind (py_index doc ''results'') (\<lambda>r.
     ebind (py_index r ''flights'') (\<lambda>flights.
     ebind (py_iter flights) (map_err (\<lambda>f. py_index f ''currency'')))))
     = Inr [JStr ''INR'', JStr ''INR'']"
  by code_simp

text \<open>
  Claim C2, as amended. When \<open>save_search_results\<close> succeeds (and a file it overwrote could
  be read), \<open>get_search_results\<close> for the same identifier returns the document
  \<open>{timestamp, results}\<close> that was written, and the \<open>results\<close> entry of that document is
  the record that was saved. The claim as written, that the record itself comes back, fails on
  the example that follows the theorem.
\<close>
theorem save_then_get:
  assumes "save_search_results now fs s r = Inr fs'"
      and "case map_of fs (file_name s) of None \<Rightarrow> True | Some f \<Rightarrow> can_read f"
  shows "get_search_results fs' s = Inr (Some (JObj [(''timestamp'', JStr now), (''results'', r)]))
         \<and> ebind (get_search_results fs' s)
               (\<lambda>d. case d of None \<Rightarrow> Inl KeyError | Some doc \<Rightarrow> py_index doc ''results'') = Inr r"
  using get_after_save [OF assms] by simp

theorem save_then_get_witness:
  "save_search_results ''2025-01-01T00:00:00'' [] ''abc'' small_record = Inr small_store \<and>
   (case map_of ([] :: fs) (file_name ''abc'') of None \<Rightarrow> True | Some f \<Rightarrow> can_read f) \<and>
   get_search_results small_store ''abc''
     = Inr (Some (JObj [(''timestamp'', JStr ''2025-01-01T00:00:00''),
                        (''results'', small_record)]))"
proof -
  have h1: "save_search_results ''2025-01-01T00:00:00'' [] ''abc'' small_record = Inr small_store"
    by (simp add: save_search_results_def write_json_def small_store_def)
  have h2: "case map_of ([] :: fs) (file_name ''abc'') of None \<Rightarrow> True | Some f \<Rightarrow> can_read f"
    by simp
  from save_then_get [OF h1 h2] h1 h2 show ?thesis by blast
qed

theorem save_then_get_counterexample:
  "save_search_results ''2025-01-01T00:00:00'' [] ''abc'' small_record = Inr small_store \<and>
   get_search_results small_store ''abc''
     = Inr (Some (JObj [(''timestamp'', JStr ''2025-01-01T00:00:00''),
                        (''results'', small_record)])) \<and>
   get_search_results small_store ''abc'' \<noteq> Inr (Some small_record)"
  by (simp add: save_search_results_def write_json_def get_search_results_def read_json_def
        small_record_def small_store_def)














lemma filter_loop_Inr:
  "filter_loop lib f xs = Inr kept \<Longrightarrow>
     kept = filter (\<lambda>x. keeps lib f x = Inr True) xs \<and>
     list_all (\<lambda>x. \<exists>b. keeps lib f x = Inr b) xs"
proof (induction xs arbitrary: kept)
  case Nil
  then show ?case by simp
next
  case (Cons x xs)
  from Cons.prems obtain b rest where
    k: "keeps lib f x = Inr b" and r: "filter_loop lib f xs = Inr rest"
    and kept: "kept = (if b then x # rest else rest)"
    by (auto simp: ebind_eq_Inr)
  from Cons.IH [OF r] k kept show ?case by auto
qed

lemma zip_map_fst_snd_sort:
  "length ks = length xs \<Longrightarrow> length (py_sort ks xs r) = length xs"
  by (simp add: py_sort_def)

lemma py_sort_set:
  "length ks = length xs \<Longrightarrow> set (py_sort ks xs r) = set xs"
proof -
  assume l: "length ks = length xs"
  have "set (py_sort ks xs r) = snd ` set (zip ks xs)"
    by (simp add: py_sort_def)
  also have "\<dots> = set (map snd (zip ks xs))" by simp
  also have "\<dots> = set xs" using l by simp
  finally show ?thesis .
qed

lemma py_sort_pairs_stable:
  "filter (\<lambda>p. fst p = k)
     (if r then rev (sort_key fst (rev ps)) else sort_key fst ps)
   = filter (\<lambda>p. fst p = k) ps"
  by (simp add: sort_key_stable rev_filter [symmetric])

lemma py_sort_stable:
  assumes "length ks = length xs"
      and "\<And>i. i < length xs \<Longrightarrow> (ks ! i = k) = P (xs ! i)"
  shows "filter P (py_sort ks xs r) = filter P xs"
proof -
  let ?ps = "zip ks xs"
  let ?out = "if r then rev (sort_key fst (rev ?ps)) else sort_key fst ?ps"
  have agree: "(fst p = k) = P (snd p)" if "p \<in> set ?ps" for p
  proof -
    from that obtain i where "i < length xs" "p = (ks ! i, xs ! i)"
      using assms(1) by (auto simp: set_zip)
    with assms(2) [of i] show ?thesis by simp
  qed
  have so: "set ?out = set ?ps" by simp
  have "filter P (py_sort ks xs r) = map snd (filter (\<lambda>p. P (snd p)) ?out)"
    by (simp add: py_sort_def filter_map o_def)
  also have "filter (\<lambda>p. P (snd p)) ?out = filter (\<lambda>p. fst p = k) ?out"
    by (rule filter_cong) (use agree so in auto)
  also have "\<dots> = filter (\<lambda>p. fst p = k) ?ps"
    by (rule py_sort_pairs_stable)
  also have "\<dots> = filter (\<lambda>p. P (snd p)) ?ps"
    by (rule filter_cong) (use agree in auto)
  also have "map snd \<dots> = filter P (map snd ?ps)"
    by (simp add: filter_map o_def)
  also have "map snd ?ps = xs" using assms(1) by simp
  finally show ?thesis .
qed

lemma filter_none:
  assumes "set out = set xs" and "\<And>x. x \<in> set xs \<Longrightarrow> \<not> P x"
  shows "filter P out = filter P xs"
proof -
  have "filter P out = []" using assms by (simp add: filter_empty_conv)
  moreover have "filter P xs = []" using assms by (simp add: filter_empty_conv)
  ultimately show ?thesis by simp
qed

lemma arrange_length: "length (arrange ps xs) = length xs"
  by (simp add: arrange_def)

lemma arrange_set: "set (arrange ps xs) = set xs"
proof -
  let ?qs = "take (length xs) (ps @ replicate (length xs) 0)"
  have l: "length ?qs = length xs" by simp
  have "set (arrange ps xs) = set (map snd (sort_key fst (zip ?qs xs)))"
    by (simp only: arrange_def)
  also have "\<dots> = snd ` set (sort_key fst (zip ?qs xs))" by (simp only: set_map)
  also have "\<dots> = snd ` set (zip ?qs xs)" by (simp only: set_sort)
  also have "\<dots> = set (map snd (zip ?qs xs))" by (simp only: set_map)
  also have "\<dots> = set xs" using l by (simp only: map_snd_zip)
  finally show ?thesis .
qed

lemma sort_flights_length:
  assumes "sort_flights lib ks xs r = Inr out" and "length ks = length xs"
  shows "length out = length xs"
  using assms
  by (auto simp: sort_flights_def zip_map_fst_snd_sort arrange_length ebind_eq_Inr
           split: if_splits)

lemma sort_flights_set:
  assumes "sort_flights lib ks xs r = Inr out" and "length ks = length xs"
  shows "set out = set xs"
  using assms
  by (auto simp: sort_flights_def py_sort_set arrange_set ebind_eq_Inr split: if_splits)

lemma sort_flights_stable:
  assumes s: "sort_flights lib ks xs r = Inr out" and l: "length ks = length xs"
      and a: "\<And>i. i < length xs \<Longrightarrow> (ks ! i = k) = P (xs ! i)"
      and o: "list_all ordered_num ks \<or> list_all is_str ks"
  shows "filter P out = filter P xs"
proof (cases "\<exists>i < length xs. ks ! i = k")
  case False
  have "\<not> P x" if "x \<in> set xs" for x
  proof -
    from that obtain i where "i < length xs" "x = xs ! i" by (auto simp: in_set_conv_nth)
    with a [of i] False show ?thesis by auto
  qed
  with sort_flights_set [OF s l] show ?thesis by (intro filter_none) auto
next
  case True
  then obtain j where j: "j < length xs" "ks ! j = k" by blast
  with l have kin: "k \<in> set ks" by (auto simp: in_set_conv_nth)
  show ?thesis
  proof (cases "length xs \<le> 1")
    case True
    with s show ?thesis by (simp add: sort_flights_def)
  next
    case long: False
    show ?thesis
    proof (cases "list_all ordered_num ks")
      case True
      with s long have out: "out = py_sort (map num_of ks) xs r"
        by (simp add: sort_flights_def)
      from True kin have kn: "ordered_num k" by (auto simp: list_all_iff)
      have "(map num_of ks ! i = num_of k) = P (xs ! i)" if "i < length xs" for i
      proof -
        from that l True have "ordered_num (ks ! i)" by (auto simp: list_all_iff)
        with kn have "(num_of (ks ! i) = num_of k) = (ks ! i = k)"
          by (elim ordered_num.elims) auto
        with a [OF that] that l show ?thesis by simp
      qed
      with l show ?thesis unfolding out by (intro py_sort_stable [where k = "num_of k"]) auto
    next
      case nn: False
      with o have st: "list_all is_str ks" by simp
      with s long nn have out: "out = py_sort (map str_of ks) xs r"
        by (simp add: sort_flights_def)
      from st kin have kn: "is_str k" by (auto simp: list_all_iff)
      have "(map str_of ks ! i = str_of k) = P (xs ! i)" if "i < length xs" for i
      proof -
        from that l st have "is_str (ks ! i)" by (auto simp: list_all_iff)
        with kn have "(str_of (ks ! i) = str_of k) = (ks ! i = k)"
          by (elim is_str.elims) auto
        with a [OF that] that l show ?thesis by simp
      qed
      with l show ?thesis unfolding out by (intro py_sort_stable [where k = "str_of k"]) auto
    qed
  qed
qed

lemma map_err_nth:
  "map_err g xs = Inr ys \<Longrightarrow> i < length xs \<Longrightarrow> g (xs ! i) = Inr (ys ! i)"
  using map_err_Inr_all2 [of g xs ys] by (simp add: list_all2_conv_all_nth)

lemma keyed_sort_props:
  assumes m: "map_err g xs = Inr ks" and s: "sort_flights lib ks xs r = Inr out"
  shows "length out = length xs" and "set out = set xs"
    and "list_all ordered_num ks \<or> list_all is_str ks \<Longrightarrow>
           filter (\<lambda>x. g x = Inr k) out = filter (\<lambda>x. g x = Inr k) xs"
proof -
  from map_err_Inr_length [OF m] have l: "length ks = length xs" .
  show "length out = length xs" by (rule sort_flights_length [OF s l])
  show "set out = set xs" by (rule sort_flights_set [OF s l])
  show "filter (\<lambda>x. g x = Inr k) out = filter (\<lambda>x. g x = Inr k) xs"
    if o: "list_all ordered_num ks \<or> list_all is_str ks"
  proof (rule sort_flights_stable [OF s l _ o, where k = k])
    fix i assume "i < length xs"
    from map_err_nth [OF m this] show "(ks ! i = k) = (g (xs ! i) = Inr k)" by auto
  qed
qed

lemma apply_sort_cases:
  assumes "apply_sort lib f kept = Inr out"
  shows "out = kept \<or>
         (\<exists>sb ks r. sort_by f = Some sb \<and> (sb = ''price'' \<or> sb = ''duration'' \<or> sb = ''departure_time'') \<and>
            map_err (flight_key lib sb) kept = Inr ks \<and> sort_flights lib ks kept r = Inr out)"
proof (cases "sort_by f")
  case None
  with assms show ?thesis by (simp add: apply_sort_def)
next
  case (Some sb)
  have fk: "flight_key lib ''price'' = price_key lib"
    "flight_key lib ''duration'' = duration_key lib"
    "flight_key lib ''departure_time'' = departure_time_key"
    by (auto simp: flight_key_def fun_eq_iff)
  from assms Some show ?thesis
    unfolding apply_sort_def Let_def
    by (auto simp: ebind_eq_Inr fk split: if_splits)
qed

lemma apply_sort_length: "apply_sort lib f kept = Inr out \<Longrightarrow> length out = length kept"
  using apply_sort_cases [of lib f kept out] keyed_sort_props(1) by blast

lemma apply_sort_set: "apply_sort lib f kept = Inr out \<Longrightarrow> set out = set kept"
  using apply_sort_cases [of lib f kept out] keyed_sort_props(2) by blast

lemma ordered_keys_of_flights:
  assumes m: "map_err (flight_key lib sb) xs = Inr ks"
      and o: "linearly_ordered_keys lib sb xs"
  shows "list_all ordered_num ks \<or> list_all is_str ks"
proof -
  have n: "flight_key lib sb (xs ! i) = Inr (ks ! i)" if "i < length xs" for i
    by (rule map_err_nth [OF m that])
  from map_err_Inr_length [OF m] have l: "length ks = length xs" .
  from o show ?thesis
    unfolding linearly_ordered_keys_def
  proof
    assume "list_all (\<lambda>x. case flight_key lib sb x of Inl e \<Rightarrow> False | Inr k \<Rightarrow> ordered_num k) xs"
    then have "ordered_num (ks ! i)" if "i < length xs" for i
      using n [OF that] that by (auto simp: list_all_length)
    with l show ?thesis by (simp add: list_all_length)
  next
    assume "list_all (\<lambda>x. case flight_key lib sb x of Inl e \<Rightarrow> False | Inr k \<Rightarrow> is_str k) xs"
    then have "is_str (ks ! i)" if "i < length xs" for i
      using n [OF that] that by (auto simp: list_all_length)
    with l show ?thesis by (simp add: list_all_length)
  qed
qed

lemma linearly_ordered_keys_set:
  "set xs = set ys \<Longrightarrow> linearly_ordered_keys lib sb xs = linearly_ordered_keys lib sb ys"
  by (simp add: linearly_ordered_keys_def list_all_iff)

lemma apply_sort_stable:
  assumes "apply_sort lib f kept = Inr out" and "sort_by f = Some sb"
      and "linearly_ordered_keys lib sb kept"
  shows "filter (\<lambda>x. flight_key lib sb x = Inr k) out
         = filter (\<lambda>x. flight_key lib sb x = Inr k) kept"
proof -
  from apply_sort_cases [OF assms(1)] assms(2) consider "out = kept"
    | ks r where "map_err (flight_key lib sb) kept = Inr ks"
        "sort_flights lib ks kept r = Inr out"
    by auto
  then show ?thesis
  proof cases
    case 1
    then show ?thesis by simp
  next
    case 2
    from keyed_sort_props(3) [OF 2 ordered_keys_of_flights [OF 2(1) assms(3)]]
    show ?thesis .
  qed
qed


lemma filter_result_not_found: "filter_result a b c d \<noteq> not_found"
  by (simp add: filter_result_def not_found_def)

lemma filter_flights_success:
  assumes "filter_flights lib dir fs f = Inr res" and "res \<noteq> not_found"
  shows "\<exists>data items kept out.
           get_search_results fs (id_text (search_id f)) = Inr (Some data) \<and> truthy data \<and>
           ebind (stored_flights data) py_iter = Inr items \<and>
           filter_loop lib f items = Inr kept \<and>
           apply_sort lib f kept = Inr out \<and>
           res = filter_result (length out) (length items) out
                   (dir @ ''/'' @ file_name (id_text (search_id f)))"
proof -
  from assms(1) obtain od where
    g: "get_search_results fs (id_text (search_id f)) = Inr od"
    unfolding filter_flights_def by (elim ebindE) blast
  with assms obtain data where d: "od = Some data" and t: "truthy data"
    by (cases od) (auto simp: filter_flights_def split: if_splits)
  from assms(1) g d t have
    "ebind (stored_flights data) (\<lambda>flights.
       ebind (py_iter flights) (\<lambda>items.
       ebind (filter_loop lib f items) (\<lambda>filtered_flights.
       ebind (apply_sort lib f filtered_flights) (\<lambda>sorted_flights.
         Inr (filter_result (length sorted_flights) (length items) sorted_flights
                (dir @ ''/'' @ file_name (id_text (search_id f)))))))) = Inr res"
    by (simp add: filter_flights_def)
  then show ?thesis
    apply (elim ebindE)
    subgoal for flights items kept out
      apply (rule exI [of _ data], rule exI [of _ items], rule exI [of _ kept],
             rule exI [of _ out])
      apply (simp add: g d t)
      done
    done
qed

lemma and_then_True: "(and_then m n = Inr True) = (m = Inr True \<and> n = Inr True)"
  by (cases m) (auto simp: and_then_def)

lemma not_float_gt: "(\<not> float_gt p P) = (float_le p P \<or> p = FNaN \<or> P = FNaN)"
  by (cases p; cases P) (auto simp: float_gt_def)

lemma keeps_price:
  assumes "keeps lib f x = Inr True" and "max_price f = Some P"
  shows "\<exists>p. flight_price lib x = Inr p \<and> (float_le p P \<or> p = FNaN \<or> P = FNaN)"
proof -
  from assms(1) have "price_ok lib f x = Inr True"
    by (simp add: keeps_def and_then_True)
  with assms(2) show ?thesis
    by (auto simp: price_ok_def flight_price_def ebind_eq_Inr not_float_gt)
qed

lemma keeps_without_price:
  assumes "flight_price lib x = Inr p" and "float_le p P \<or> p = FNaN \<or> P = FNaN"
      and "max_price f = Some P"
      and "keeps lib (f\<lparr>max_price := None\<rparr>) x = Inr True"
  shows "keeps lib f x = Inr True"
proof -
  from assms(2) have "\<not> float_gt p P" by (simp add: not_float_gt)
  with assms(1,3) have "price_ok lib f x = Inr True"
    by (auto simp: price_ok_def flight_price_def ebind_eq_Inr)
  moreover from assms(4) have
    "duration_ok lib f x = Inr True" "stops_ok f x = Inr True"
    "airline_ok f x = Inr True" "time_ok f x = Inr True"
    by (simp_all add: keeps_def and_then_True duration_ok_def stops_ok_def airline_ok_def
          time_ok_def)
  ultimately show ?thesis by (simp add: keeps_def and_then_True)
qed

lemma filter_flights_stored:
  assumes "filter_flights lib dir fs f = Inr res"
      and "get_search_results fs (id_text (search_id f)) = Inr (Some data)" and "truthy data"
  shows "res \<noteq> not_found"
proof -
  from assms have
    "ebind (stored_flights data) (\<lambda>flights.
       ebind (py_iter flights) (\<lambda>items.
       ebind (filter_loop lib f items) (\<lambda>filtered_flights.
       ebind (apply_sort lib f filtered_flights) (\<lambda>sorted_flights.
         Inr (filter_result (length sorted_flights) (length items) sorted_flights
                (dir @ ''/'' @ file_name (id_text (search_id f)))))))) = Inr res"
    by (simp add: filter_flights_def)
  then show ?thesis
    by (elim ebindE) (use filter_result_not_found in auto)
qed

lemma duration_keys_ordered:
  "map_err (flight_key lib ''duration'') xs = Inr ks \<Longrightarrow> list_all ordered_num ks"
proof (induction xs arbitrary: ks)
  case Nil
  then show ?case by simp
next
  case (Cons x xs)
  from Cons.prems obtain k rest where
    k: "flight_key lib ''duration'' x = Inr k"
    and r: "map_err (flight_key lib ''duration'') xs = Inr rest" and ks: "ks = k # rest"
    by (auto simp: ebind_eq_Inr)
  from k have "ordered_num k"
    by (auto simp: flight_key_def duration_key_def ebind_eq_Inr)
  with Cons.IH [OF r] ks show ?case by simp
qed

text \<open>
  Claim C3, as amended. When no document is stored under the identifier, the filter returns
  the error dict and raises nothing. When it returns anything else, the stored document is
  truthy and the result has four entries: \<open>filtered_count\<close>, the number of stored flights
  that pass every test; \<open>total_count\<close>, the number of stored flights; \<open>flights\<close>, the
  flights that pass, possibly reordered; and \<open>storage\<close>, the path of the document. The
  claim as written leaves \<open>storage\<close> out, as the example after the theorem shows.
  Whenever a truthy document is stored and the filter returns, what it returns is not the
  error dict.
\<close>
theorem filter_flights_result:
  "(map_of fs (file_name (id_text (search_id f))) = None \<longrightarrow>
      filter_flights lib dir fs f = Inr not_found)
   \<and> (\<forall>res. filter_flights lib dir fs f = Inr res \<and> res \<noteq> not_found \<longrightarrow>
        (\<exists>data items kept out.
           get_search_results fs (id_text (search_id f)) = Inr (Some data) \<and> truthy data \<and>
           ebind (stored_flights data) py_iter = Inr items \<and>
           kept = filter (\<lambda>x. keeps lib f x = Inr True) items \<and>
           length out = length kept \<and> set out = set kept \<and>
           res = JObj [(''filtered_count'', JInt (int (length kept))),
                       (''total_count'', JInt (int (length items))),
                       (''flights'', JArr out),
                       (''storage'', JStr (dir @ ''/'' @ file_name (id_text (search_id f))))]))
   \<and> (\<forall>res data. filter_flights lib dir fs f = Inr res \<and>
          get_search_results fs (id_text (search_id f)) = Inr (Some data) \<and> truthy data \<longrightarrow>
          res \<noteq> not_found)"
proof (intro conjI allI impI)
  assume "map_of fs (file_name (id_text (search_id f))) = None"
  then show "filter_flights lib dir fs f = Inr not_found"
    by (simp add: filter_flights_def get_search_results_def)
next
  fix res
  assume a: "filter_flights lib dir fs f = Inr res \<and> res \<noteq> not_found"
  from filter_flights_success [of lib dir fs f res] a obtain data items kept out where
    g: "get_search_results fs (id_text (search_id f)) = Inr (Some data)" "truthy data"
       "ebind (stored_flights data) py_iter = Inr items"
    and k: "filter_loop lib f items = Inr kept"
    and s: "apply_sort lib f kept = Inr out"
    and r: "res = filter_result (length out) (length items) out
                   (dir @ ''/'' @ file_name (id_text (search_id f)))"
    by blast
  from filter_loop_Inr [OF k] have k': "kept = filter (\<lambda>x. keeps lib f x = Inr True) items"
    by simp
  from apply_sort_length [OF s] apply_sort_set [OF s]
  have l: "length out = length kept" "set out = set kept" .
  from r l have "res = JObj [(''filtered_count'', JInt (int (length kept))),
                       (''total_count'', JInt (int (length items))),
                       (''flights'', JArr out),
                       (''storage'', JStr (dir @ ''/'' @ file_name (id_text (search_id f))))]"
    by (simp add: filter_result_def)
  with g k' l show "\<exists>data items kept out.
           get_search_results fs (id_text (search_id f)) = Inr (Some data) \<and> truthy data \<and>
           ebind (stored_flights data) py_iter = Inr items \<and>
           kept = filter (\<lambda>x. keeps lib f x = Inr True) items \<and>
           length out = length kept \<and> set out = set kept \<and>
           res = JObj [(''filtered_count'', JInt (int (length kept))),
                       (''total_count'', JInt (int (length items))),
                       (''flights'', JArr out),
                       (''storage'', JStr (dir @ ''/'' @ file_name (id_text (search_id f))))]"
    by blast
next
  fix res data
  assume "filter_flights lib dir fs f = Inr res \<and>
          get_search_results fs (id_text (search_id f)) = Inr (Some data) \<and> truthy data"
  then show "res \<noteq> not_found" using filter_flights_stored by blast
qed

theorem filter_flights_result_witness:
  "map_of example_store (file_name (id_text (search_id (no_filters ''zzz'')))) = None \<and>
   filter_flights example_lib ''/tmp/flights'' example_store (no_filters ''zzz'') = Inr not_found \<and>
   filter_flights example_lib ''/tmp/flights'' example_store cheap_direct
     = Inr (JObj [(''filtered_count'', JInt 1), (''total_count'', JInt 2),
                  (''flights'', JArr [example_flights ! 1]),
                  (''storage'', JStr example_path)]) \<and>
   JObj [(''filtered_count'', JInt 1), (''total_count'', JInt 2),
         (''flights'', JArr [example_flights ! 1]),
         (''storage'', JStr example_path)] \<noteq> not_found \<and>
   (\<exists>data items kept out.
      get_search_results example_store (id_text (search_id cheap_direct)) = Inr (Some data) \<and>
      truthy data \<and>
      ebind (stored_flights data) py_iter = Inr items \<and>
      kept = filter (\<lambda>x. keeps example_lib cheap_direct x = Inr True) items \<and>
      length out = length kept \<and> set out = set kept \<and>
      JObj [(''filtered_count'', JInt 1), (''total_count'', JInt 2),
            (''flights'', JArr [example_flights ! 1]),
            (''storage'', JStr example_path)]
      = JObj [(''filtered_count'', JInt (int (length kept))),
              (''total_count'', JInt (int (length items))),
              (''flights'', JArr out),
              (''storage'', JStr (''/tmp/flights'' @ ''/'' @
                 file_name (id_text (search_id cheap_direct))))])"
proof -
  have h1: "map_of example_store (file_name (id_text (search_id (no_filters ''zzz'')))) = None"
    by code_simp
  have h2: "filter_flights example_lib ''/tmp/flights'' example_store cheap_direct
     = Inr (JObj [(''filtered_count'', JInt 1), (''total_count'', JInt 2),
                  (''flights'', JArr [example_flights ! 1]),
                  (''storage'', JStr example_path)])"
    by code_simp
  have h3: "JObj [(''filtered_count'', JInt 1), (''total_count'', JInt 2),
         (''flights'', JArr [example_flights ! 1]),
         (''storage'', JStr example_path)] \<noteq> not_found"
    by (simp add: not_found_def)
  from filter_flights_result [of example_store "no_filters ''zzz''" example_lib "''/tmp/flights''"] h1
  have a: "filter_flights example_lib ''/tmp/flights'' example_store (no_filters ''zzz'')
             = Inr not_found"
    by blast
  from filter_flights_result [of example_store cheap_direct example_lib "''/tmp/flights''"] h2 h3
  have b: "\<exists>data items kept out.
      get_search_results example_store (id_text (search_id cheap_direct)) = Inr (Some data) \<and>
      truthy data \<and>
      ebind (stored_flights data) py_iter = Inr items \<and>
      kept = filter (\<lambda>x. keeps example_lib cheap_direct x = Inr True) items \<and>
      length out = length kept \<and> set out = set kept \<and>
      JObj [(''filtered_count'', JInt 1), (''total_count'', JInt 2),
            (''flights'', JArr [example_flights ! 1]),
            (''storage'', JStr example_path)]
      = JObj [(''filtered_count'', JInt (int (length kept))),
              (''total_count'', JInt (int (length items))),
              (''flights'', JArr out),
              (''storage'', JStr (''/tmp/flights'' @ ''/'' @
                 file_name (id_text (search_id cheap_direct))))]"
    by blast
  from h1 h2 h3 a b show ?thesis by blast
qed

theorem filter_flights_result_counterexample:
  "filter_flights example_lib ''/tmp/flights'' example_store (no_filters ''id1'')
     = Inr (JObj [(''filtered_count'', JInt 2), (''total_count'', JInt 2),
                  (''flights'', JArr example_flights),
                  (''storage'', JStr ''/tmp/flights/search_id1.json'')]) \<and>
   filter_flights example_lib ''/tmp/flights'' example_store (no_filters ''id1'')
     \<noteq> Inr (JObj [(''filtered_count'', JInt 2), (''total_count'', JInt 2),
                  (''flights'', JArr example_flights)])"
proof -
  have "filter_flights example_lib ''/tmp/flights'' example_store (no_filters ''id1'')
     = Inr (JObj [(''filtered_count'', JInt 2), (''total_count'', JInt 2),
                  (''flights'', JArr example_flights),
                  (''storage'', JStr ''/tmp/flights/search_id1.json'')])"
    by code_simp
  then show ?thesis by simp
qed

text \<open>
  Claim C4, as amended. When the filter returns a result for a spec with \<open>max_price = P\<close>,
  every flight in the output is a stored flight whose price, read as
  \<open>float(flight.get("price", inf))\<close>, is not greater than \<open>P\<close>: it is at most \<open>P\<close>, or it
  is NaN (or \<open>P\<close> is). Every stored flight with such a price that passes the tests of the
  spec without its \<open>max_price\<close> is in the output. The claim as written, that the output
  holds only flights with price at most \<open>P\<close>, fails for a flight whose price is NaN, as the
  example after the theorem shows.
\<close>
theorem max_price_filter:
  assumes "filter_flights lib dir fs f = Inr res" and "res \<noteq> not_found"
      and "max_price f = Some P"
  shows "\<exists>data items out.
           get_search_results fs (id_text (search_id f)) = Inr (Some data) \<and>
           ebind (stored_flights data) py_iter = Inr items \<and>
           py_index res ''flights'' = Inr (JArr out) \<and>
           (\<forall>x\<in>set out. x \<in> set items \<and>
              (\<exists>p. flight_price lib x = Inr p \<and> (float_le p P \<or> p = FNaN \<or> P = FNaN))) \<and>
           (\<forall>x\<in>set items.
              (\<exists>p. flight_price lib x = Inr p \<and> (float_le p P \<or> p = FNaN \<or> P = FNaN)) \<and>
              keeps lib (f\<lparr>max_price := None\<rparr>) x = Inr True \<longrightarrow> x \<in> set out)"
proof -
  from filter_flights_success [OF assms(1,2)] obtain data items kept out where
    g: "get_search_results fs (id_text (search_id f)) = Inr (Some data)"
       "ebind (stored_flights data) py_iter = Inr items"
    and k: "filter_loop lib f items = Inr kept"
    and s: "apply_sort lib f kept = Inr out"
    and r: "res = filter_result (length out) (length items) out
                   (dir @ ''/'' @ file_name (id_text (search_id f)))"
    by blast
  from filter_loop_Inr [OF k] have k': "kept = filter (\<lambda>x. keeps lib f x = Inr True) items"
    by simp
  from apply_sort_set [OF s] k' have
    o: "set out = {x \<in> set items. keeps lib f x = Inr True}" by simp
  from r have fl: "py_index res ''flights'' = Inr (JArr out)"
    by (simp add: filter_result_def)
  have a: "\<forall>x\<in>set out. x \<in> set items \<and>
              (\<exists>p. flight_price lib x = Inr p \<and> (float_le p P \<or> p = FNaN \<or> P = FNaN))"
    using o keeps_price [OF _ assms(3)] by blast
  have b: "\<forall>x\<in>set items.
              (\<exists>p. flight_price lib x = Inr p \<and> (float_le p P \<or> p = FNaN \<or> P = FNaN)) \<and>
              keeps lib (f\<lparr>max_price := None\<rparr>) x = Inr True \<longrightarrow> x \<in> set out"
    using o keeps_without_price [OF _ _ assms(3)] by blast
  from g fl a b show ?thesis by blast
qed

theorem max_price_filter_witness:
  "filter_flights example_lib ''/tmp/flights'' example_store cheap_direct
     = Inr (filter_result 1 2 [example_flights ! 1] example_path) \<and>
   filter_result 1 2 [example_flights ! 1] example_path \<noteq> not_found \<and>
   max_price cheap_direct = Some (FNum 400) \<and>
   flight_price example_lib (example_flights ! 1) = Inr (FNum 350) \<and>
   (\<exists>data items out.
       get_search_results example_store (id_text (search_id cheap_direct)) = Inr (Some data) \<and>
       ebind (stored_flights data) py_iter = Inr items \<and>
       py_index (filter_result 1 2 [example_flights ! 1] example_path) ''flights''
         = Inr (JArr out) \<and>
       list_all (\<lambda>x. x \<in> set items \<and>
                   (\<exists>p. flight_price example_lib x = Inr p \<and>
                        (float_le p (FNum 400) \<or> p = FNaN \<or> FNum 400 = FNaN))) out)"
proof -
  have h1: "filter_flights example_lib ''/tmp/flights'' example_store cheap_direct
     = Inr (filter_result 1 2 [example_flights ! 1] example_path)"
    by code_simp
  have h2: "filter_result 1 2 [example_flights ! 1] example_path \<noteq> not_found"
    by (rule filter_result_not_found)
  have h3: "max_price cheap_direct = Some (FNum 400)"
    by (simp add: cheap_direct_def)
  have h4: "flight_price example_lib (example_flights ! 1) = Inr (FNum 350)"
    by code_simp
  from max_price_filter [OF h1 h2 h3] have
    "\<exists>data items out.
       get_search_results example_store (id_text (search_id cheap_direct)) = Inr (Some data) \<and>
       ebind (stored_flights data) py_iter = Inr items \<and>
       py_index (filter_result 1 2 [example_flights ! 1] example_path) ''flights''
         = Inr (JArr out) \<and>
       list_all (\<lambda>x. x \<in> set items \<and>
                   (\<exists>p. flight_price example_lib x = Inr p \<and>
                        (float_le p (FNum 400) \<or> p = FNaN \<or> FNum 400 = FNaN))) out"
    unfolding list_all_iff by blast
  with h1 h2 h3 h4 show ?thesis by blast
qed

theorem max_price_filter_counterexample:
  "filter_flights example_lib ''/tmp/flights'' nan_store at_most_two
     = Inr (filter_result 6 7
              [nan_flights ! 0, nan_flights ! 1, nan_flights ! 3, nan_flights ! 4,
               nan_flights ! 5, nan_flights ! 6] nan_path) \<and>
   max_price at_most_two = Some (FNum 2) \<and>
   flight_price example_lib (nan_flights ! 0) = Inr FNaN \<and>
   \<not> float_le FNaN (FNum 2)"
  by code_simp

text \<open>
  Claim C5, as amended. When the filter returns a result for a spec that sorts by \<open>price\<close>,
  \<open>duration\<close> or \<open>departure_time\<close>, in either order, and \<open><\<close> orders the sort keys of the
  flights linearly (always for \<open>duration\<close>; for \<open>price\<close> when no price is NaN; for
  \<open>departure_time\<close> when the times are all strings or all numbers other than NaN), the
  flights of the output with a given sort key are the surviving flights with that key, in
  the order the loop left them: flights that are equal on the key keep their relative
  order. The claim as written, for every list of keys, fails when a price is NaN, as the
  example after the theorem shows.
\<close>
theorem sort_is_stable:
  assumes "filter_flights lib dir fs f = Inr res" and "res \<noteq> not_found"
      and "sort_by f = Some sb"
      and "sb = ''price'' \<or> sb = ''duration'' \<or> sb = ''departure_time''"
      and "py_index res ''flights'' = Inr (JArr out)"
      and "sb = ''duration'' \<or> linearly_ordered_keys lib sb out"
  shows "\<exists>data items kept.
           get_search_results fs (id_text (search_id f)) = Inr (Some data) \<and>
           ebind (stored_flights data) py_iter = Inr items \<and>
           filter_loop lib f items = Inr kept \<and>
           (\<forall>k. filter (\<lambda>x. flight_key lib sb x = Inr k) out
                = filter (\<lambda>x. flight_key lib sb x = Inr k) kept)"
proof -
  from filter_flights_success [OF assms(1,2)] obtain data items kept out' where
    g: "get_search_results fs (id_text (search_id f)) = Inr (Some data)"
       "ebind (stored_flights data) py_iter = Inr items"
    and k: "filter_loop lib f items = Inr kept"
    and s: "apply_sort lib f kept = Inr out'"
    and r: "res = filter_result (length out') (length items) out'
                   (dir @ ''/'' @ file_name (id_text (search_id f)))"
    by blast
  from r assms(5) have o: "out' = out"
    by (simp add: filter_result_def)
  have st: "filter (\<lambda>x. flight_key lib sb x = Inr k) out
              = filter (\<lambda>x. flight_key lib sb x = Inr k) kept" for k
  proof -
    from apply_sort_cases [OF s] assms(3) o consider "out = kept"
      | ks r where "map_err (flight_key lib sb) kept = Inr ks"
          "sort_flights lib ks kept r = Inr out"
      by auto
    then show ?thesis
    proof cases
      case 1
      then show ?thesis by simp
    next
      case 2
      have "list_all ordered_num ks \<or> list_all is_str ks"
      proof (cases "sb = ''duration''")
        case True
        with 2(1) duration_keys_ordered show ?thesis by blast
      next
        case False
        with assms(6) have "linearly_ordered_keys lib sb out" by simp
        with linearly_ordered_keys_set [OF keyed_sort_props(2) [OF 2]]
        have "linearly_ordered_keys lib sb kept" by simp
        from ordered_keys_of_flights [OF 2(1) this] show ?thesis .
      qed
      from keyed_sort_props(3) [OF 2 this] show ?thesis .
    qed
  qed
  with g k show ?thesis by blast
qed

theorem sort_is_stable_witness:
  "filter_flights example_lib ''/tmp/flights'' example_store by_price_desc
     = Inr (filter_result 2 2 example_flights example_path) \<and>
   filter_result 2 2 example_flights example_path \<noteq> not_found \<and>
   sort_by by_price_desc = Some ''price'' \<and>
   py_index (filter_result 2 2 example_flights example_path) ''flights''
     = Inr (JArr example_flights) \<and>
   linearly_ordered_keys example_lib ''price'' example_flights \<and>
   flight_key example_lib ''price'' (example_flights ! 0) = Inr (KNum (FNum 350)) \<and>
   flight_key example_lib ''price'' (example_flights ! 1) = Inr (KNum (FNum 350)) \<and>
   (\<exists>data items kept.
      get_search_results example_store (id_text (search_id by_price_desc)) = Inr (Some data) \<and>
      ebind (stored_flights data) py_iter = Inr items \<and>
      filter_loop example_lib by_price_desc items = Inr kept \<and>
      filter (\<lambda>x. flight_key example_lib ''price'' x = Inr (KNum (FNum 350))) example_flights
        = filter (\<lambda>x. flight_key example_lib ''price'' x = Inr (KNum (FNum 350))) kept)"
proof -
  have h1: "filter_flights example_lib ''/tmp/flights'' example_store by_price_desc
     = Inr (filter_result 2 2 example_flights example_path)"
    by code_simp
  have h2: "filter_result 2 2 example_flights example_path \<noteq> not_found"
    by (rule filter_result_not_found)
  have h3: "sort_by by_price_desc = Some ''price''"
    by (simp add: by_price_desc_def)
  have h4: "''price'' = ''price'' \<or> ''price'' = ''duration'' \<or> ''price'' = ''departure_time''"
    by simp
  have h5: "py_index (filter_result 2 2 example_flights example_path) ''flights''
     = Inr (JArr example_flights)"
    by (simp add: filter_result_def)
  have h6: "linearly_ordered_keys example_lib ''price'' example_flights"
    by code_simp
  have h7: "flight_key example_lib ''price'' (example_flights ! 0) = Inr (KNum (FNum 350))"
    by code_simp
  have h8: "flight_key example_lib ''price'' (example_flights ! 1) = Inr (KNum (FNum 350))"
    by code_simp
  from h6 have h6': "''price'' = ''duration'' \<or> linearly_ordered_keys example_lib ''price'' example_flights"
    by simp
  from sort_is_stable [OF h1 h2 h3 h4 h5 h6'] h1 h2 h3 h5 h6 h7 h8 show ?thesis by blast
qed

theorem sort_is_stable_counterexample:
  "filter_flights example_lib ''/tmp/flights'' nan_store nan_by_price
     = Inr (filter_result 7 7
              [nan_flights ! 0, nan_flights ! 1, nan_flights ! 5, nan_flights ! 6,
               nan_flights ! 2, nan_flights ! 3, nan_flights ! 4] nan_path) \<and>
   filter_loop example_lib nan_by_price nan_flights = Inr nan_flights \<and>
   length nan_flights = 7 \<and>
   flight_key example_lib ''price'' (nan_flights ! 4) = Inr (KNum (FNum 1)) \<and>
   flight_key example_lib ''price'' (nan_flights ! 6) = Inr (KNum (FNum 1)) \<and>
   flight_key example_lib ''price'' (nan_flights ! 0) = Inr (KNum FNaN) \<and>
   nan_flights ! 4 \<noteq> nan_flights ! 6"
  by code_simp



end
